theory Spec2Isabelle
  imports Complex_Main "HOL-Library.AList" "HOL-Library.Multiset"
begin

section \<open>Embedding of \<open>get_med_metfcst.py\<close>\<close>

text \<open>
  The script \<open>tools/bin/ecflow/processes/main/meteorological/get_med_metfcst.py\<close> is one
  function, \<open>main\<close>, whose body is a loop over the model names.  Each stage of the loop body is
  a definition below, named after the statement it embeds, and \<open>run_model\<close> composes them in
  the order of the source.

  Cell values are numpy floats.  A cell is NaN or a number (type \<open>cell\<close> below); numbers are
  modelled as \<open>real\<close>: the script only compares them, moves them and hands them to the unit
  converter, and the constants it compares with (\<open>-30000\<close> and \<open>-32767.\<close>) are exact in every
  float format.  Infinities and the rounding of the converter are outside this model.
\<close>

subsection \<open>Errors\<close>

text \<open>
  Every exception that a statement of the script can raise is a value; a raise aborts the run.
  \<open>Unmodelled\<close> marks library behaviour that the embedding does not describe (the outer join
  of differing coordinates, the filling of NaN cells by \<open>xr.merge\<close>, numpy broadcasting); nothing
  is claimed about such runs.
\<close>

datatype error =
    KeyError string
  | ValueError string
  | IndexError
  | MergeError string
  | OverflowError
  | FileNotFoundError string
  | CDOException string
  | IOError string
  | Unmodelled string

definition bindE :: "error + 'a \<Rightarrow> ('a \<Rightarrow> error + 'b) \<Rightarrow> error + 'b" where
  "bindE m f = (case m of Inl e \<Rightarrow> Inl e | Inr x \<Rightarrow> f x)"

definition dict_get :: "(string \<times> 'v) list \<Rightarrow> string \<Rightarrow> error + 'v" where
  \<comment> \<open>\<open>d[k]\<close> on a Python dict\<close>
  "dict_get d k = (case map_of d k of None \<Rightarrow> Inl (KeyError k) | Some v \<Rightarrow> Inr v)"

subsection \<open>numpy arrays\<close>

text \<open>
  An array is its shape and its cells in row-major order.  The element-wise operations of the
  script are the ones below; \<open>mask_get\<close> is \<open>a[mask]\<close> on the right of an assignment (the
  selected cells, in order), \<open>mask_set\<close> is \<open>a[mask] = values\<close> and \<open>mask_fill\<close> is
  \<open>a[mask] = scalar\<close>.
\<close>

datatype cell = NaN | Num real

fun cell_less :: "cell \<Rightarrow> cell \<Rightarrow> bool" where
  \<comment> \<open>\<open><\<close> on floats: false as soon as one side is NaN\<close>
  "cell_less (Num x) (Num y) = (x < y)"
| "cell_less _ _ = False"

fun cell_le :: "cell \<Rightarrow> cell \<Rightarrow> bool" where
  \<comment> \<open>\<open><=\<close> on floats\<close>
  "cell_le (Num x) (Num y) = (x \<le> y)"
| "cell_le _ _ = False"

definition np_gt :: "cell list \<Rightarrow> cell list \<Rightarrow> bool list" where
  \<comment> \<open>\<open>a > b\<close>\<close>
  "np_gt a b = map2 (\<lambda>x y. cell_less y x) a b"

definition np_lt_scalar :: "cell list \<Rightarrow> real \<Rightarrow> bool list" where
  \<comment> \<open>\<open>a < c\<close>\<close>
  "np_lt_scalar a c = map (\<lambda>x. cell_less x (Num c)) a"

definition np_ne_scalar :: "cell list \<Rightarrow> real \<Rightarrow> bool list" where
  \<comment> \<open>\<open>a != c\<close>: true of a NaN cell\<close>
  "np_ne_scalar a c = map (\<lambda>x. x \<noteq> Num c) a"

definition np_and :: "bool list \<Rightarrow> bool list \<Rightarrow> bool list" where
  "np_and m n = map2 (\<lambda>p q. p \<and> q) m n"

fun mask_get :: "'a list \<Rightarrow> bool list \<Rightarrow> 'a list" where
  "mask_get (x # xs) (m # ms) = (if m then x # mask_get xs ms else mask_get xs ms)"
| "mask_get _ _ = []"

fun mask_set :: "'a list \<Rightarrow> bool list \<Rightarrow> 'a list \<Rightarrow> 'a list" where
  "mask_set (x # xs) (True # ms) (v # vs) = v # mask_set xs ms vs"
| "mask_set (x # xs) (False # ms) vs = x # mask_set xs ms vs"
| "mask_set xs _ _ = xs"

fun mask_fill :: "'a list \<Rightarrow> bool list \<Rightarrow> 'a \<Rightarrow> 'a list" where
  "mask_fill (x # xs) (m # ms) c = (if m then c else x) # mask_fill xs ms c"
| "mask_fill xs _ _ = xs"

fun index_of :: "'a list \<Rightarrow> 'a \<Rightarrow> nat" where
  "index_of [] y = 0"
| "index_of (x # xs) y = (if x = y then 0 else Suc (index_of xs y))"

fun ravel :: "nat list \<Rightarrow> nat list \<Rightarrow> nat" where
  \<comment> \<open>offset of a multi-index in a row-major array of the given shape\<close>
  "ravel (n # ns) (i # js) = i * prod_list ns + ravel ns js"
| "ravel _ _ = 0"

fun unravel :: "nat list \<Rightarrow> nat \<Rightarrow> nat list" where
  \<comment> \<open>multi-index of an offset\<close>
  "unravel [] k = []"
| "unravel (n # ns) k = (k div prod_list ns) # unravel ns (k mod prod_list ns)"

definition np_transpose :: "nat list \<Rightarrow> nat list \<Rightarrow> 'a list \<Rightarrow> nat list \<times> 'a list" where
  \<comment> \<open>\<open>numpy.transpose(a, axes)\<close>: axis \<open>p\<close> of the result is axis \<open>axes ! p\<close> of \<open>a\<close>\<close>
  "np_transpose axes shp xs =
     (let shp' = map (\<lambda>a. shp ! a) axes
      in (shp', map (\<lambda>k. xs ! ravel shp (map (\<lambda>b. unravel shp' k ! index_of axes b)
                                              [0 ..< length shp]))
                    [0 ..< length xs]))"

subsection \<open>xarray datasets\<close>

text \<open>
  A variable has named dimensions, attributes and an array.  A dataset maps names to data
  variables and to one-dimensional index coordinates; the time coordinate holds timestamps.
\<close>

record variable =
  dims :: "string list"
  shape :: "nat list"
  attrs :: "(string \<times> string) list"
  vals :: "cell list"

record timestamp =
  year :: nat
  month :: nat
  day :: nat
  ns_of_day :: nat

datatype axis = TimeAxis "timestamp list" | NumAxis "real list"

record dataset =
  data_vars :: "(string \<times> variable) list"
  coords :: "(string \<times> axis) list"

definition ds_names :: "dataset \<Rightarrow> string list" where
  "ds_names ds = map fst (data_vars ds) @ map fst (coords ds)"

definition ds_dims :: "dataset \<Rightarrow> string list" where
  "ds_dims ds = concat (map (\<lambda>(n, v). dims v) (data_vars ds)) @ map fst (coords ds)"

definition getitem :: "dataset \<Rightarrow> string \<Rightarrow> error + variable" where
  \<comment> \<open>\<open>ds[name]\<close> for a data variable\<close>
  "getitem ds k =
     (case map_of (data_vars ds) k of
        Some v \<Rightarrow> Inr v
      | None \<Rightarrow> if k \<in> set (map fst (coords ds))
                then Inl (Unmodelled ''coordinate used as data variable'')
                else Inl (KeyError k))"

definition setitem :: "dataset \<Rightarrow> string \<Rightarrow> variable \<Rightarrow> dataset" where
  \<comment> \<open>in-place mutation of the variable stored under an existing name\<close>
  "setitem ds k v = ds\<lparr>data_vars := AList.update k v (data_vars ds)\<rparr>"

definition rename_name :: "string \<Rightarrow> string \<Rightarrow> string \<Rightarrow> string" where
  \<comment> \<open>\<open>name_dict.get(n, n)\<close> for the one-entry dict \<open>{k: v}\<close>\<close>
  "rename_name k v n = (if n = k then v else n)"

definition rename_ds :: "string \<Rightarrow> string \<Rightarrow> dataset \<Rightarrow> error + dataset" where
  \<comment> \<open>\<open>Dataset.rename({k: v}, inplace=True)\<close>\<close>
  "rename_ds k v ds =
     (if k \<notin> set (ds_names ds) \<and> k \<notin> set (ds_dims ds)
        then Inl (ValueError ''cannot rename: not a variable or dimension in this dataset'')
      else if v \<in> set (ds_names ds) \<and> k \<noteq> v
        then Inl (ValueError ''the new name already exists'')
      else Inr \<lparr>data_vars = map (\<lambda>(n, x). (rename_name k v n,
                                            x\<lparr>dims := map (rename_name k v) (dims x)\<rparr>))
                                 (data_vars ds),
                coords = map (\<lambda>(n, a). (rename_name k v n, a)) (coords ds)\<rparr>)"

definition transpose_var :: "string list \<Rightarrow> variable \<Rightarrow> variable" where
  \<comment> \<open>\<open>Variable.transpose(*new_dims)\<close>\<close>
  "transpose_var new_dims x =
     (if length new_dims < 2 then x
      else let axes = map (index_of (dims x)) new_dims;
               (shp', xs') = np_transpose axes (shape x) (vals x)
           in x\<lparr>dims := new_dims, shape := shp', vals := xs'\<rparr>)"

definition transpose_ds :: "string list \<Rightarrow> dataset \<Rightarrow> error + dataset" where
  \<comment> \<open>\<open>Dataset.transpose(*order)\<close>\<close>
  "transpose_ds order ds =
     (if set order \<noteq> set (ds_dims ds)
        then Inl (ValueError ''arguments to transpose must be permuted dataset dimensions'')
      else Inr (ds\<lparr>data_vars :=
                     map (\<lambda>(n, x). (n, transpose_var (filter (\<lambda>d. d \<in> set (dims x)) order) x))
                         (data_vars ds)\<rparr>))"

text \<open>
  Cells by label.  \<open>cell_at x a\<close> is the cell of \<open>x\<close> at position \<open>a d\<close> along each dimension
  \<open>d\<close> (what \<open>x.isel\<close> returns), \<open>dim_size x d\<close> is \<open>x.sizes[d]\<close>, and \<open>wf_variable\<close> is the
  invariant of a variable: distinct dimension names, one extent per dimension, and as many
  cells as the shape says.  The script does not use them; they say what a transposition keeps.
\<close>

definition cell_at :: "variable \<Rightarrow> (string \<Rightarrow> nat) \<Rightarrow> cell" where
  "cell_at x a = vals x ! ravel (shape x) (map a (dims x))"

definition dim_size :: "variable \<Rightarrow> string \<Rightarrow> nat" where
  "dim_size x d = shape x ! index_of (dims x) d"

definition wf_variable :: "variable \<Rightarrow> bool" where
  "wf_variable x =
     (distinct (dims x) \<and> length (shape x) = length (dims x) \<and>
      length (vals x) = prod_list (shape x))"

subsection \<open>The external collaborators\<close>

text \<open>
  The remote data service, the units library (\<open>cf_units\<close>), the configuration rewriter
  (\<open>monitor.model_tools.replace_var_pythonic_config\<close>) and the regridding engine (\<open>cdo\<close>) are
  not part of the script.  They are parameters of the model: \<open>unit_converter u_in u_out\<close> is
  the element-wise function that \<open>Unit(u_in).convert(_, Unit(u_out))\<close> applies, or the error
  raised for unparseable or incompatible units; the two file-writing collaborators map the
  file system to an optional exception and the file system they leave behind;
  \<open>netcdf_write_error ds path files\<close> is the exception with which writing the dataset \<open>ds\<close>
  to the staging file fails, and the file system the failed write leaves, or \<open>None\<close> when the
  write succeeds.  The file system is the set of paths that exist; what a file holds is not
  recorded.
\<close>

type_synonym fs = "string set"

datatype pyval = PyStr string | PyInt int

record world =
  open_dataset :: "string \<Rightarrow> error + dataset"
  unit_converter :: "string \<Rightarrow> string \<Rightarrow> error + (cell \<Rightarrow> cell)"
  replace_var_pythonic_config ::
    "string \<Rightarrow> string \<Rightarrow> (string \<times> pyval) list \<Rightarrow> fs \<Rightarrow> error option \<times> fs"
  remapcon :: "string \<Rightarrow> string \<Rightarrow> string \<Rightarrow> fs \<Rightarrow> error option \<times> fs"
  netcdf_write_error :: "dataset \<Rightarrow> string \<Rightarrow> fs \<Rightarrow> (error \<times> fs) option"

type_synonym config = "(string \<times> (string \<times> string) list) list"

definition cfg_get :: "config \<Rightarrow> string \<Rightarrow> string \<Rightarrow> error + string" where
  \<comment> \<open>\<open>config_dict[section][key]\<close>\<close>
  "cfg_get cfg sec k = bindE (dict_get cfg sec) (\<lambda>d. dict_get d k)"

subsection \<open>Constants of \<open>main\<close>\<close>

definition varnames :: "(string \<times> string) list" where
  \<comment> \<open>the dict literal, in the order \<open>varnames.items()\<close> yields it\<close>
  "varnames = [(''vs'', ''wind_speed''), (''tmmx'', ''air_temperature''),
               (''tmmn'', ''air_temperature''),
               (''srad'', ''surface_downwelling_shortwave_flux_in_air''),
               (''sph'', ''specific_humidity''), (''pr'', ''precipitation_amount''),
               (''pet'', ''potential_evapotranspiration'')]"

definition modelnames :: "string list" where
  "modelnames = [''CFSv2'']"

definition new_units :: "(string \<times> string) list" where
  "new_units = [(''vs'', ''m s-1''), (''sph'', ''kg kg-1''), (''tmmx'', ''degC''),
                (''tmmn'', ''degC''), (''srad'', ''W m-2''), (''pr'', ''mm''), (''pet'', ''mm'')]"

definition url :: "string \<Rightarrow> string" where
  "url var = ''http://thredds.northwestknowledge.net:8080/thredds/dodsC/'' @
             ''NWCSC_INTEGRATED_SCENARIOS_ALL_CLIMATE/'' @
             ''cfsv2_metdata_90day/'' @
             ''cfsv2_metdata_forecast_'' @ var @ ''_daily.nc''"

subsection \<open>Fetch and merge (lines 65--79)\<close>

fun fetch_loop ::
  "(string \<Rightarrow> error + dataset) \<Rightarrow> (string \<times> string) list \<Rightarrow> dataset list \<Rightarrow> error + dataset list"
where
  "fetch_loop opn [] dlist = Inr dlist"
| "fetch_loop opn ((var, name) # rest) dlist =
     bindE (opn (url var)) (\<lambda>xds.
       if name = ''air_temperature''
       then bindE (rename_ds ''air_temperature'' var xds) (\<lambda>xds'.
              fetch_loop opn rest (dlist @ [xds']))
       else fetch_loop opn rest (dlist @ [xds]))"

text \<open>
  \<open>xr.merge\<close> takes the union of the variables.  A name held by two datasets with the same
  array in both keeps the first occurrence.  Two arrays of the same dimensions that differ only
  where one of them is NaN would be combined cell by cell, and index coordinates that differ
  would be outer-joined and the data padded with NaN; both are outside the model.  Any other
  clash is a \<open>MergeError\<close>.
\<close>

fun merge_vars ::
  "(string \<times> variable) list \<Rightarrow> (string \<times> variable) list \<Rightarrow> error + (string \<times> variable) list"
where
  "merge_vars acc [] = Inr acc"
| "merge_vars acc ((n, v) # rest) =
     (case map_of acc n of
        None \<Rightarrow> merge_vars (acc @ [(n, v)]) rest
      | Some v' \<Rightarrow>
          if dims v' = dims v \<and> shape v' = shape v \<and> vals v' = vals v
          then merge_vars acc rest
          else if dims v' = dims v \<and> shape v' = shape v \<and>
                  list_all2 (\<lambda>a b. a = NaN \<or> b = NaN \<or> a = b) (vals v') (vals v)
          then Inl (Unmodelled ''combining arrays that differ at NaN cells'')
          else Inl (MergeError n))"

fun merge_coords ::
  "(string \<times> axis) list \<Rightarrow> (string \<times> axis) list \<Rightarrow> error + (string \<times> axis) list"
where
  "merge_coords acc [] = Inr acc"
| "merge_coords acc ((n, a) # rest) =
     (case map_of acc n of
        None \<Rightarrow> merge_coords (acc @ [(n, a)]) rest
      | Some a' \<Rightarrow>
          if a' = a then merge_coords acc rest
          else Inl (Unmodelled ''outer join of differing coordinates''))"

fun merge_into :: "dataset \<Rightarrow> dataset list \<Rightarrow> error + dataset" where
  "merge_into acc [] = Inr acc"
| "merge_into acc (d # rest) =
     (if set (map fst (data_vars d)) \<inter> set (map fst (coords acc)) \<noteq> {}
         \<or> set (map fst (coords d)) \<inter> set (map fst (data_vars acc)) \<noteq> {}
      then Inl (MergeError ''coordinate or data variable'')
      else bindE (merge_vars (data_vars acc) (data_vars d)) (\<lambda>dv.
           bindE (merge_coords (coords acc) (coords d)) (\<lambda>cs.
             merge_into \<lparr>data_vars = dv, coords = cs\<rparr> rest)))"

definition xr_merge :: "dataset list \<Rightarrow> error + dataset" where
  "xr_merge dlist = merge_into \<lparr>data_vars = [], coords = []\<rparr> dlist"

definition fetch_and_merge :: "world \<Rightarrow> error + dataset" where
  \<comment> \<open>lines 65--79: the fetch loop, \<open>xr.merge\<close> and the renaming of \<open>day\<close>\<close>
  "fetch_and_merge w =
     bindE (fetch_loop (open_dataset w) varnames []) (\<lambda>dlist.
     bindE (xr_merge dlist) (\<lambda>merge_ds.
       rename_ds ''day'' ''time'' merge_ds))"

subsection \<open>Unit conversion and fill-value repair (lines 80--87)\<close>

definition normalize_var ::
  "(string \<Rightarrow> string \<Rightarrow> error + (cell \<Rightarrow> cell)) \<Rightarrow> string \<Rightarrow> dataset \<Rightarrow> error + dataset"
where
  "normalize_var conv var merge_ds =
     bindE (getitem merge_ds var) (\<lambda>x.
     bindE (dict_get (attrs x) ''units'') (\<lambda>units_in.
     bindE (dict_get new_units var) (\<lambda>units_out.
     bindE (conv units_in units_out) (\<lambda>f.
       let converted = map f (vals x);
           repaired = mask_fill converted (np_lt_scalar converted (- 30000)) (Num (- 32767))
       in Inr (setitem merge_ds var
                 (x\<lparr>vals := repaired,
                    attrs := AList.update ''units'' units_out (attrs x)\<rparr>))))))"

definition normalize :: "world \<Rightarrow> dataset \<Rightarrow> error + dataset" where
  \<comment> \<open>\<open>for var in ('tmmn', 'tmmx')\<close>\<close>
  "normalize w merge_ds =
     bindE (normalize_var (unit_converter w) ''tmmn'' merge_ds)
           (normalize_var (unit_converter w) ''tmmx'')"

subsection \<open>Making sure tmax >= tmin (lines 91--95)\<close>

definition swap_mask :: "cell list \<Rightarrow> cell list \<Rightarrow> bool list" where
  \<comment> \<open>\<open>swap_values = ((tmin > tmax) & (tmax != -32767.))\<close>\<close>
  "swap_mask tmin tmax = np_and (np_gt tmin tmax) (np_ne_scalar tmax (- 32767))"

definition enforce :: "dataset \<Rightarrow> error + dataset" where
  "enforce merge_ds =
     bindE (getitem merge_ds ''tmmn'') (\<lambda>vn.
     bindE (getitem merge_ds ''tmmx'') (\<lambda>vx.
       if shape vn \<noteq> shape vx then Inl (Unmodelled ''broadcasting'')
       else
         let tmin = vals vn;
             tmax = vals vx;
             swap_values = swap_mask tmin tmax;
             ds1 = setitem merge_ds ''tmmn''
                     (vn\<lparr>vals := mask_set (vals vn) swap_values (mask_get tmax swap_values)\<rparr>);
             ds2 = setitem ds1 ''tmmx''
                     (vx\<lparr>vals := mask_set (vals vx) swap_values (mask_get tmin swap_values)\<rparr>)
         in Inr ds2))"

subsection \<open>Dates (lines 96--101)\<close>

text \<open>
  A \<open>datetime\<close> and a pandas \<open>Timestamp\<close> are a calendar date and the nanoseconds elapsed in
  that day.  \<open>add_one_day\<close> is \<open>+ timedelta(days=1)\<close> on the proleptic Gregorian calendar; the
  two types differ in the range they can hold.  \<open>toordinal\<close> is the day number that
  \<open>date.toordinal\<close> computes (day 1 is 0001-01-01), by the formulas of the \<open>datetime\<close> module;
  the script does not call it, it states what adding a day means.
\<close>

definition is_leap :: "nat \<Rightarrow> bool" where
  "is_leap y = (y mod 4 = 0 \<and> (y mod 100 \<noteq> 0 \<or> y mod 400 = 0))"

definition days_in_month :: "nat \<Rightarrow> nat \<Rightarrow> nat" where
  "days_in_month y m =
     (if m = 2 then (if is_leap y then 29 else 28)
      else if m = 4 \<or> m = 6 \<or> m = 9 \<or> m = 11 then 30 else 31)"

definition valid_date :: "timestamp \<Rightarrow> bool" where
  "valid_date t =
     (1 \<le> year t \<and> year t \<le> 9999 \<and> 1 \<le> month t \<and> month t \<le> 12 \<and>
      1 \<le> day t \<and> day t \<le> days_in_month (year t) (month t))"

definition days_before_year :: "nat \<Rightarrow> nat" where
  "days_before_year y = (y - 1) * 365 + (y - 1) div 4 - (y - 1) div 100 + (y - 1) div 400"

definition days_before_month :: "nat \<Rightarrow> nat \<Rightarrow> nat" where
  "days_before_month y m = sum_list (map (days_in_month y) [1 ..< m])"

definition toordinal :: "timestamp \<Rightarrow> nat" where
  "toordinal t = days_before_year (year t) + days_before_month (year t) (month t) + day t"

definition add_one_day :: "timestamp \<Rightarrow> timestamp" where
  "add_one_day t =
     (if day t < days_in_month (year t) (month t) then t\<lparr>day := day t + 1\<rparr>
      else if month t < 12 then t\<lparr>month := month t + 1, day := 1\<rparr>
      else t\<lparr>year := year t + 1, month := 1, day := 1\<rparr>)"

definition datetime_add_day :: "timestamp \<Rightarrow> error + timestamp" where
  \<comment> \<open>\<open>datetime + timedelta(days=1)\<close>; the largest year of a \<open>datetime\<close> is 9999\<close>
  "datetime_add_day t =
     (let t' = add_one_day t in if year t' > 9999 then Inl OverflowError else Inr t')"

definition timestamp_max :: timestamp where
  \<comment> \<open>\<open>pd.Timestamp.max\<close>, 2262-04-11 23:47:16.854775807\<close>
  "timestamp_max = \<lparr>year = 2262, month = 4, day = 11, ns_of_day = 85636854775807\<rparr>"

definition timestamp_le :: "timestamp \<Rightarrow> timestamp \<Rightarrow> bool" where
  "timestamp_le a b =
     (year a < year b \<or> (year a = year b \<and>
       (month a < month b \<or> (month a = month b \<and>
         (day a < day b \<or> (day a = day b \<and> ns_of_day a \<le> ns_of_day b))))))"

definition timestamp_add_day :: "timestamp \<Rightarrow> error + timestamp" where
  \<comment> \<open>\<open>Timestamp + timedelta(days=1)\<close>\<close>
  "timestamp_add_day t =
     (let t' = add_one_day t
      in if timestamp_le t' timestamp_max then Inr t' else Inl OverflowError)"

definition is_digit :: "char \<Rightarrow> bool" where
  "is_digit c = (c \<in> set ''0123456789'')"

definition digit_val :: "char \<Rightarrow> nat" where
  "digit_val c = of_char c - 48"

definition int_of_digits :: "string \<Rightarrow> nat" where
  "int_of_digits s = foldl (\<lambda>acc c. 10 * acc + digit_val c) 0 s"

definition month_field :: "string \<Rightarrow> bool" where
  \<comment> \<open>the directive \<open>%m\<close>: \<open>1[0-2]|0[1-9]|[1-9]\<close>\<close>
  "month_field s =
     (case s of
        [a] \<Rightarrow> is_digit a \<and> a \<noteq> CHR ''0''
      | [a, b] \<Rightarrow> (a = CHR ''1'' \<and> b \<in> set ''012'') \<or>
                  (a = CHR ''0'' \<and> is_digit b \<and> b \<noteq> CHR ''0'')
      | _ \<Rightarrow> False)"

definition day_field :: "string \<Rightarrow> bool" where
  \<comment> \<open>the directive \<open>%d\<close>: \<open>3[0-1]|[1-2]\d|0[1-9]|[1-9]| [1-9]\<close>\<close>
  "day_field s =
     (case s of
        [a] \<Rightarrow> is_digit a \<and> a \<noteq> CHR ''0''
      | [a, b] \<Rightarrow> (a = CHR ''3'' \<and> b \<in> set ''01'') \<or>
                  (a \<in> set ''12'' \<and> is_digit b) \<or>
                  (a \<in> set ''0 '' \<and> is_digit b \<and> b \<noteq> CHR ''0'')
      | _ \<Rightarrow> False)"

definition strptime :: "string \<Rightarrow> error + timestamp" where
  \<comment> \<open>\<open>datetime.strptime(s, '%Y-%m-%d')\<close>: four digits, a hyphen, a month field, a hyphen, a day
      field and nothing else; then the date must exist\<close>
  "strptime s =
     (let ypart = take 4 s;
          rest = drop 5 s;
          mpart = takeWhile (\<lambda>c. c \<noteq> CHR ''-'') rest;
          dpart = drop (Suc (length mpart)) rest
      in if length s \<ge> 5 \<and> list_all is_digit ypart \<and> s ! 4 = CHR ''-''
            \<and> length mpart < length rest \<and> month_field mpart \<and> day_field dpart
         then let y = int_of_digits ypart;
                  m = int_of_digits mpart;
                  d = int_of_digits (filter is_digit dpart)
              in if 1 \<le> y \<and> d \<le> days_in_month y m
                 then Inr \<lparr>year = y, month = m, day = d, ns_of_day = 0\<rparr>
                 else Inl (ValueError ''day is out of range for month'')
         else Inl (ValueError ''time data does not match format''))"

definition digit_char :: "nat \<Rightarrow> char" where
  "digit_char n = char_of (48 + n mod 10)"

definition two_digits :: "nat \<Rightarrow> string" where
  \<comment> \<open>\<open>%m\<close> and \<open>%d\<close> on output: two digits, padded with a zero\<close>
  "two_digits n = [digit_char (n div 10), digit_char n]"

function decimal :: "nat \<Rightarrow> string" where
  \<comment> \<open>\<open>%Y\<close> on output: the C library prints the year without padding\<close>
  "decimal n = (if n < 10 then [digit_char n] else decimal (n div 10) @ [digit_char n])"
  by pat_completeness auto
termination
  by (relation "measure (\<lambda>n. n)") auto

declare decimal.simps [simp del]

definition strftime :: "timestamp \<Rightarrow> string" where
  \<comment> \<open>\<open>t.strftime('%Y-%m-%d')\<close>\<close>
  "strftime t = decimal (year t) @ ''-'' @ two_digits (month t) @ ''-'' @ two_digits (day t)"

definition last_time :: "dataset \<Rightarrow> error + timestamp" where
  \<comment> \<open>\<open>pd.to_datetime(merge_ds['time'].values[-1])\<close>\<close>
  "last_time merge_ds =
     (case map_of (coords merge_ds) ''time'' of
        None \<Rightarrow> if ''time'' \<in> set (map fst (data_vars merge_ds))
                then Inl (Unmodelled ''data variable used as time axis'')
                else Inl (KeyError ''time'')
      | Some (NumAxis xs) \<Rightarrow> Inl (Unmodelled ''numeric time axis'')
      | Some (TimeAxis ts) \<Rightarrow> if ts = [] then Inl IndexError else Inr (last ts))"

definition window :: "config \<Rightarrow> dataset \<Rightarrow> error + string \<times> string \<times> string" where
  \<comment> \<open>lines 96--101: the triple
      \<open>(start_date_format, end_date_format, vic_save_state_format)\<close>\<close>
  "window config_dict merge_ds =
     bindE (last_time merge_ds) (\<lambda>end_date.
     bindE (cfg_get config_dict ''MONITOR'' ''End_Date'') (\<lambda>prior_end.
     bindE (strptime prior_end) (\<lambda>parsed.
     bindE (datetime_add_day parsed) (\<lambda>start_date.
     bindE (timestamp_add_day end_date) (\<lambda>save_state.
       Inr (strftime start_date, strftime end_date, strftime save_state))))))"

definition window_kwargs ::
  "config \<Rightarrow> string \<times> string \<times> string \<Rightarrow> error + (string \<times> pyval) list"
where
  \<comment> \<open>lines 106--114\<close>
  "window_kwargs config_dict w =
     (case w of (start_date_format, end_date_format, vic_save_state_format) \<Rightarrow>
        bindE (cfg_get config_dict ''MONITOR'' ''Start_Date'') (\<lambda>sd.
        bindE (cfg_get config_dict ''MONITOR'' ''End_Date'') (\<lambda>ed.
        bindE (cfg_get config_dict ''MONITOR'' ''vic_save_state'') (\<lambda>vs.
          Inr [(''START_DATE'', PyStr sd), (''END_DATE'', PyStr ed), (''VIC_SAVE_STATE'', PyStr vs),
               (''MED_START_DATE'', PyStr start_date_format),
               (''MED_END_DATE'', PyStr end_date_format),
               (''MED_VIC_SAVE_STATE'', PyStr vic_save_state_format),
               (''SEAS_START_DATE'', PyInt (- 9999)), (''SEAS_END_DATE'', PyInt (- 9999)),
               (''SEAS_VIC_SAVE_STATE'', PyInt (- 9999))]))))"

subsection \<open>Staging, regridding and clean-up (lines 119--127)\<close>

definition path_join :: "string \<Rightarrow> string \<Rightarrow> string" where
  \<comment> \<open>\<open>os.path.join(a, b)\<close>\<close>
  "path_join a b =
     (if b \<noteq> [] \<and> hd b = CHR ''/'' then b
      else if a = [] \<or> last a = CHR ''/'' then a @ b
      else a @ ''/'' @ b)"

definition to_netcdf :: "string \<Rightarrow> fs \<Rightarrow> fs" where
  \<comment> \<open>\<open>merge_ds.to_netcdf(path)\<close> when the write succeeds: the file is created or overwritten\<close>
  "to_netcdf path files = insert path files"

definition os_remove :: "string \<Rightarrow> fs \<Rightarrow> error option \<times> fs" where
  "os_remove path files =
     (if path \<in> files then (None, files - {path})
      else (Some (FileNotFoundError path), files))"

definition temporary_path :: "string \<Rightarrow> string \<Rightarrow> string" where
  \<comment> \<open>\<open>os.path.join(config_dict['ECFLOW']['TempDir'], 'med_temp_{}'.format(model))\<close>\<close>
  "temporary_path temp_dir model = path_join temp_dir (''med_temp_'' @ model)"

definition regrid_step ::
  "world \<Rightarrow> string \<Rightarrow> string \<Rightarrow> string \<Rightarrow> fs \<Rightarrow> error option \<times> fs"
where
  \<comment> \<open>lines 125--127 when the write of line 125 succeeds: stage the dataset, remap it, remove
      the staging file\<close>
  "regrid_step w grid_file temporary outfile files =
     (let files1 = to_netcdf temporary files
      in case remapcon w grid_file temporary outfile files1 of
           (Some e, files2) \<Rightarrow> (Some e, files2)
         | (None, files2) \<Rightarrow> os_remove temporary files2)"

definition stage_and_regrid ::
  "world \<Rightarrow> dataset \<Rightarrow> string \<Rightarrow> string \<Rightarrow> string \<Rightarrow> fs \<Rightarrow> error option \<times> fs"
where
  \<comment> \<open>lines 125--127 for the dataset \<open>merge_ds\<close>: a failing write raises at line 125, before
      the regridding engine is called\<close>
  "stage_and_regrid w merge_ds grid_file temporary outfile files =
     (case netcdf_write_error w merge_ds temporary files of
        Some (e, files1) \<Rightarrow> (Some e, files1)
      | None \<Rightarrow> regrid_step w grid_file temporary outfile files)"

subsection \<open>The loop body and \<open>main\<close>\<close>

definition build_dataset :: "world \<Rightarrow> error + dataset" where
  \<comment> \<open>lines 65--95\<close>
  "build_dataset w =
     bindE (fetch_and_merge w) (\<lambda>merge_ds.
     bindE (normalize w merge_ds) (\<lambda>merge_ds.
     bindE (transpose_ds [''time'', ''lat'', ''lon''] merge_ds) enforce))"

definition run_model ::
  "world \<Rightarrow> config \<Rightarrow> string \<Rightarrow> string \<Rightarrow> string \<Rightarrow> string \<Rightarrow> string \<Rightarrow> fs
     \<Rightarrow> error option \<times> fs"
where
  \<comment> \<open>the body of \<open>for model in modelnames\<close>, lines 65--127\<close>
  "run_model w config_dict met_fcst_loc old_config_file new_config_file grid_file model files =
     (case build_dataset w of
        Inl e \<Rightarrow> (Some e, files)
      | Inr merge_ds \<Rightarrow>
          (case bindE (window config_dict merge_ds) (window_kwargs config_dict) of
             Inl e \<Rightarrow> (Some e, files)
           | Inr kwargs \<Rightarrow>
               (case replace_var_pythonic_config w old_config_file new_config_file kwargs
                       files of
                  (Some e, files1) \<Rightarrow> (Some e, files1)
                | (None, files1) \<Rightarrow>
                    (let outfile = path_join met_fcst_loc (model @ ''.nc'')
                     in case cfg_get config_dict ''ECFLOW'' ''TempDir'' of
                          Inl e \<Rightarrow> (Some e, files1)
                        | Inr temp_dir \<Rightarrow>
                            stage_and_regrid w merge_ds grid_file
                              (temporary_path temp_dir model) outfile files1))))"

fun models_loop ::
  "world \<Rightarrow> config \<Rightarrow> string \<Rightarrow> string \<Rightarrow> string \<Rightarrow> string \<Rightarrow> string list \<Rightarrow> fs
     \<Rightarrow> error option \<times> fs"
where
  "models_loop w cfg loc old new grid [] files = (None, files)"
| "models_loop w cfg loc old new grid (model # rest) files =
     (case run_model w cfg loc old new grid model files of
        (Some e, files1) \<Rightarrow> (Some e, files1)
      | (None, files1) \<Rightarrow> models_loop w cfg loc old new grid rest files1)"

definition main :: "world \<Rightarrow> config \<Rightarrow> fs \<Rightarrow> error option \<times> fs" where
  \<comment> \<open>\<open>main\<close> after \<open>read_config\<close>: lines 41--46, then the loop\<close>
  "main w config_dict files =
     (case bindE (cfg_get config_dict ''MED_FCST'' ''Met_Loc'') (\<lambda>met_fcst_loc.
           bindE (cfg_get config_dict ''ECFLOW'' ''old_Config'') (\<lambda>old_config_file.
           bindE (cfg_get config_dict ''ECFLOW'' ''new_Config'') (\<lambda>new_config_file.
           bindE (cfg_get config_dict ''DOMAIN'' ''GridFile'') (\<lambda>grid_file.
             Inr (met_fcst_loc, old_config_file, new_config_file, grid_file))))) of
        Inl e \<Rightarrow> (Some e, files)
      | Inr (met_fcst_loc, old_config_file, new_config_file, grid_file) \<Rightarrow>
          models_loop w config_dict met_fcst_loc old_config_file new_config_file grid_file
            modelnames files)"

subsection \<open>A worked example\<close>

text \<open>
  A small instance of the collaborators, used to run the definitions on concrete data: seven
  remote series on a grid of one day, two longitudes and two latitudes, stored in the order
  \<open>(day, lon, lat)\<close>, with temperatures in Kelvin.  The cells of the two temperature series
  cover the cases of the script: a pair in the wrong order, a missing maximum (\<open>-32767\<close>), an
  ordinary pair, and a minimum that is not the fill value but lies below the repair threshold
  after conversion.  The units library is represented by three of its converters to \<open>degC\<close>.
  The constants after \<open>example_remote\<close> are the values of the dataset after each stage;
  \<open>lonlat\<close> is the order of the four cells once longitude and latitude have changed places.
\<close>

fun kelvin_to_celsius :: "cell \<Rightarrow> cell" where
  "kelvin_to_celsius (Num x) = Num (x - 273.15)"
| "kelvin_to_celsius NaN = NaN"

fun fahrenheit_to_celsius :: "cell \<Rightarrow> cell" where
  "fahrenheit_to_celsius (Num x) = Num ((x - 32) * 5 / 9)"
| "fahrenheit_to_celsius NaN = NaN"

definition celsius_to_celsius :: "cell \<Rightarrow> cell" where
  "celsius_to_celsius x = x"

definition example_units :: "string \<Rightarrow> string \<Rightarrow> error + (cell \<Rightarrow> cell)" where
  "example_units units_in units_out =
     (if units_out \<noteq> ''degC'' then Inl (ValueError ''not convertible'')
      else if units_in = ''K'' then Inr kelvin_to_celsius
      else if units_in = ''degF'' then Inr fahrenheit_to_celsius
      else if units_in = ''degC'' then Inr celsius_to_celsius
      else Inl (ValueError ''not convertible''))"

fun lonlat :: "'a list \<Rightarrow> 'a list" where
  "lonlat [a, b, c, d] = [a, c, b, d]"
| "lonlat xs = xs"

definition example_dims :: "string \<Rightarrow> bool \<Rightarrow> string list" where
  \<comment> \<open>the dimensions as the source stores them, or transposed\<close>
  "example_dims t transposed = (if transposed then [t, ''lat'', ''lon''] else [t, ''lon'', ''lat''])"

definition example_var :: "string list \<Rightarrow> string \<Rightarrow> cell list \<Rightarrow> variable" where
  "example_var ds u cells = \<lparr>dims = ds, shape = [1, 2, 2], attrs = [(''units'', u)], vals = cells\<rparr>"

definition example_coords :: "string \<Rightarrow> (string \<times> axis) list" where
  "example_coords t =
     [(t, TimeAxis [\<lparr>year = 2024, month = 4, day = 9, ns_of_day = 0\<rparr>]),
      (''lon'', NumAxis [- 120, - 119]),
      (''lat'', NumAxis [45, 46])]"

definition example_series :: "string \<Rightarrow> string \<Rightarrow> real list \<Rightarrow> dataset" where
  \<comment> \<open>one remote file: a single data variable on the source grid\<close>
  "example_series name units cells =
     \<lparr>data_vars = [(name, example_var (example_dims ''day'' False) units (map Num cells))],
      coords = example_coords ''day''\<rparr>"

definition example_remote :: "string \<Rightarrow> error + dataset" where
  "example_remote u =
     (case map_of
        [(url ''vs'', example_series ''wind_speed'' ''m/s'' [3, 4, 5, 6]),
         (url ''tmmx'', example_series ''air_temperature'' ''K'' [278.15, - 32767, 290, 300]),
         (url ''tmmn'', example_series ''air_temperature'' ''K'' [283.15, 283.15, 280, - 29800]),
         (url ''srad'', example_series ''surface_downwelling_shortwave_flux_in_air'' ''W m-2''
                          [100, 110, 120, 130]),
         (url ''sph'', example_series ''specific_humidity'' ''kg/kg'' [1, 2, 3, 4]),
         (url ''pr'', example_series ''precipitation_amount'' ''mm'' [0, 2, 0, 1]),
         (url ''pet'', example_series ''potential_evapotranspiration'' ''mm'' [1, 1, 2, 2])] u
      of None \<Rightarrow> Inl (IOError u) | Some ds \<Rightarrow> Inr ds)"

definition example_dlist :: "dataset list" where
  \<comment> \<open>\<open>dlist\<close> after the fetch loop\<close>
  "example_dlist =
     [example_series ''wind_speed'' ''m/s'' [3, 4, 5, 6],
      example_series ''tmmx'' ''K'' [278.15, - 32767, 290, 300],
      example_series ''tmmn'' ''K'' [283.15, 283.15, 280, - 29800],
      example_series ''surface_downwelling_shortwave_flux_in_air'' ''W m-2'' [100, 110, 120, 130],
      example_series ''specific_humidity'' ''kg/kg'' [1, 2, 3, 4],
      example_series ''precipitation_amount'' ''mm'' [0, 2, 0, 1],
      example_series ''potential_evapotranspiration'' ''mm'' [1, 1, 2, 2]]"

definition example_merged ::
  "string \<Rightarrow> bool \<Rightarrow> string \<Rightarrow> cell list \<Rightarrow> cell list \<Rightarrow> dataset"
where
  \<comment> \<open>the merged dataset, as a function of what the later stages change: the name of the time
      axis, whether the arrays are transposed, the temperature unit and the temperature cells\<close>
  "example_merged t transposed u tmmx_cells tmmn_cells =
     (let ds = example_dims t transposed;
          stored = (\<lambda>cells. map Num (if transposed then lonlat cells else cells))
      in \<lparr>data_vars =
            [(''wind_speed'', example_var ds ''m/s'' (stored [3, 4, 5, 6])),
             (''tmmx'', example_var ds u tmmx_cells),
             (''tmmn'', example_var ds u tmmn_cells),
             (''surface_downwelling_shortwave_flux_in_air'',
                example_var ds ''W m-2'' (stored [100, 110, 120, 130])),
             (''specific_humidity'', example_var ds ''kg/kg'' (stored [1, 2, 3, 4])),
             (''precipitation_amount'', example_var ds ''mm'' (stored [0, 2, 0, 1])),
             (''potential_evapotranspiration'', example_var ds ''mm'' (stored [1, 1, 2, 2]))],
          coords = example_coords t\<rparr>)"

definition example_raw :: dataset where
  \<comment> \<open>after \<open>xr.merge\<close>\<close>
  "example_raw = example_merged ''day'' False ''K''
                   (map Num [278.15, - 32767, 290, 300]) (map Num [283.15, 283.15, 280, - 29800])"

definition example_K :: dataset where
  \<comment> \<open>after the renaming of \<open>day\<close>\<close>
  "example_K = example_merged ''time'' False ''K''
                 (map Num [278.15, - 32767, 290, 300]) (map Num [283.15, 283.15, 280, - 29800])"

definition example_degC :: dataset where
  \<comment> \<open>after unit conversion and repair\<close>
  "example_degC = example_merged ''time'' False ''degC''
                    (map Num [5, - 32767, 16.85, 26.85]) (map Num [10, 10, 6.85, - 32767])"

definition example_transposed :: dataset where
  "example_transposed = example_merged ''time'' True ''degC''
                          (map Num [5, 16.85, - 32767, 26.85]) (map Num [10, 6.85, 10, - 32767])"

definition example_enforced :: dataset where
  \<comment> \<open>after the swap: the dataset that is staged for regridding\<close>
  "example_enforced = example_merged ''time'' True ''degC''
                        (map Num [10, 16.85, - 32767, 26.85]) (map Num [5, 6.85, 10, - 32767])"

definition example_F :: dataset where
  \<comment> \<open>the same grid with temperatures recorded in degrees Fahrenheit\<close>
  "example_F = example_merged ''time'' False ''degF''
                 (map Num [50, - 32767, 68, 77]) (map Num [41, 41, 50, 59])"

definition example_F_degC :: dataset where
  "example_F_degC = example_merged ''time'' False ''degC''
                      (map Num [10, - 163995 / 9, 20, 25]) (map Num [5, 5, 10, 15])"

definition example_nan_K :: dataset where
  \<comment> \<open>the same grid with a maximum that is NaN in the first cell\<close>
  "example_nan_K = example_merged ''time'' True ''K''
                     [NaN, Num 290, Num 290, Num 300] (map Num [283.15, 280, 280, 285])"

definition example_nan_degC :: dataset where
  "example_nan_degC = example_merged ''time'' True ''degC''
                        [NaN, Num 16.85, Num 16.85, Num 26.85] (map Num [10, 6.85, 6.85, 11.85])"

definition example_replace ::
  "string \<Rightarrow> string \<Rightarrow> (string \<times> pyval) list \<Rightarrow> fs \<Rightarrow> error option \<times> fs"
where
  "example_replace old_config_file new_config_file kwargs files =
     (None, insert new_config_file files)"

definition example_remapcon :: "string \<Rightarrow> string \<Rightarrow> string \<Rightarrow> fs \<Rightarrow> error option \<times> fs" where
  "example_remapcon grid_file inp outp files =
     (if inp \<in> files then (None, insert outp files)
      else (Some (CDOException ''input file not found''), files))"

definition failing_remapcon :: "string \<Rightarrow> string \<Rightarrow> string \<Rightarrow> fs \<Rightarrow> error option \<times> fs" where
  \<comment> \<open>a regridding engine that raises and writes nothing\<close>
  "failing_remapcon grid_file inp outp files = (Some (CDOException ''remapcon failed''), files)"

definition example_write :: "dataset \<Rightarrow> string \<Rightarrow> fs \<Rightarrow> (error \<times> fs) option" where
  \<comment> \<open>a staging directory that can be written\<close>
  "example_write ds path files = None"

definition example_world :: world where
  "example_world =
     \<lparr>open_dataset = example_remote, unit_converter = example_units,
      replace_var_pythonic_config = example_replace, remapcon = example_remapcon,
      netcdf_write_error = example_write\<rparr>"

definition failing_world :: world where
  "failing_world = example_world\<lparr>remapcon := failing_remapcon\<rparr>"

definition example_config :: config where
  "example_config =
     [(''MED_FCST'', [(''Met_Loc'', ''/data/forecast'')]),
      (''ECFLOW'', [(''old_Config'', ''/cfg/old.cfg''), (''new_Config'', ''/cfg/new.cfg''),
                    (''TempDir'', ''/scratch/tmp'')]),
      (''DOMAIN'', [(''GridFile'', ''/data/grid.nc'')]),
      (''MONITOR'', [(''Start_Date'', ''2023-10-13''), (''End_Date'', ''2024-01-10''),
                     (''vic_save_state'', ''2024-01-11'')])]"

definition example_prior_end :: timestamp where
  \<comment> \<open>the date that \<open>End_Date\<close> of the example records\<close>
  "example_prior_end = \<lparr>year = 2024, month = 1, day = 10, ns_of_day = 0\<rparr>"

definition example_end_date :: timestamp where
  \<comment> \<open>the last timestamp of the example's time axis\<close>
  "example_end_date = \<lparr>year = 2024, month = 4, day = 9, ns_of_day = 0\<rparr>"

definition year_end_config :: config where
  \<comment> \<open>a prior run that ended on the last day of a year\<close>
  "year_end_config = [(''MONITOR'', [(''End_Date'', ''2023-12-31'')])]"

definition leap_day_ds :: dataset where
  \<comment> \<open>a series that ends on the day before a leap day\<close>
  "leap_day_ds =
     \<lparr>data_vars = [],
      coords = [(''time'', TimeAxis [\<lparr>year = 2024, month = 2, day = 28, ns_of_day = 0\<rparr>])]\<rparr>"

section \<open>Properties of the stages\<close>

lemma cell_less_asym: "cell_less a b \<Longrightarrow> \<not> cell_less b a"
  by (cases a; cases b) auto

lemma cell_less_Num: "cell_less a (Num c) \<longleftrightarrow> (\<exists>x. a = Num x \<and> x < c)"
  by (cases a) auto

lemma Num_cell_less: "cell_less (Num c) a \<longleftrightarrow> (\<exists>x. a = Num x \<and> c < x)"
  by (cases a) auto

lemma not_cell_less: "a \<noteq> NaN \<Longrightarrow> b \<noteq> NaN \<Longrightarrow> \<not> cell_less b a \<Longrightarrow> cell_le a b"
  by (cases a; cases b) auto

lemma cell_less_le: "cell_less a b \<Longrightarrow> cell_le a b"
  by (cases a; cases b) auto

lemma bindE_Inr_iff: "bindE m f = Inr y \<longleftrightarrow> (\<exists>x. m = Inr x \<and> f x = Inr y)"
  by (cases m) (simp_all add: bindE_def)

lemma getitem_Inr_iff: "getitem ds k = Inr v \<longleftrightarrow> map_of (data_vars ds) k = Some v"
  by (simp add: getitem_def split: option.splits)

lemma dict_get_Inr_iff: "dict_get d k = Inr v \<longleftrightarrow> map_of d k = Some v"
  by (simp add: dict_get_def split: option.splits)

lemma getitem_setitem:
  "getitem (setitem ds k v) k' = (if k' = k then Inr v else getitem ds k')"
  by (simp add: getitem_def setitem_def AList.update_conv' AList.update_keys
           split: option.splits)

lemma mask_fill_lt:
  "mask_fill xs (np_lt_scalar xs t) c = map (\<lambda>x. if cell_less x (Num t) then c else x) xs"
  by (induction xs) (auto simp: np_lt_scalar_def)

lemma length_mask_set: "length (mask_set xs ms vs) = length xs"
  by (induction xs ms vs rule: mask_set.induct) auto

lemma mask_set_get_nth:
  "i < length a \<Longrightarrow> i < length m \<Longrightarrow> i < length b \<Longrightarrow>
   mask_set a m (mask_get b m) ! i = (if m ! i then b ! i else a ! i)"
proof (induction a arbitrary: m b i)
  case Nil
  then show ?case by simp
next
  case (Cons x a)
  obtain p m' where m: "m = p # m'" using Cons.prems by (cases m) auto
  obtain y b' where b: "b = y # b'" using Cons.prems by (cases b) auto
  show ?case
  proof (cases i)
    case 0
    then show ?thesis by (cases p) (simp_all add: m b)
  next
    case (Suc j)
    with Cons.prems have "j < length a" "j < length m'" "j < length b'" by (simp_all add: m b)
    from Cons.IH[OF this] show ?thesis by (cases p) (simp_all add: m b Suc)
  qed
qed

lemma mask_set_all_False:
  "\<forall>p \<in> set m. \<not> p \<Longrightarrow> mask_set a m vs = a"
  by (induction a m vs rule: mask_set.induct) auto

lemma length_swap_mask: "length (swap_mask a b) = min (length a) (length b)"
  by (simp add: swap_mask_def np_and_def np_gt_def np_ne_scalar_def)

lemma swap_mask_nth:
  "i < length a \<Longrightarrow> i < length b \<Longrightarrow>
   swap_mask a b ! i = (cell_less (b ! i) (a ! i) \<and> b ! i \<noteq> Num (- 32767))"
  by (simp add: swap_mask_def np_and_def np_gt_def np_ne_scalar_def)

text \<open>What the two masked assignments leave in a cell.\<close>

lemma swapped_min_nth:
  "i < length tmin \<Longrightarrow> i < length tmax \<Longrightarrow>
   mask_set tmin (swap_mask tmin tmax) (mask_get tmax (swap_mask tmin tmax)) ! i =
     (if cell_less (tmax ! i) (tmin ! i) \<and> tmax ! i \<noteq> Num (- 32767) then tmax ! i
      else tmin ! i)"
  by (simp add: mask_set_get_nth length_swap_mask swap_mask_nth)

lemma swapped_max_nth:
  "i < length tmin \<Longrightarrow> i < length tmax \<Longrightarrow>
   mask_set tmax (swap_mask tmin tmax) (mask_get tmin (swap_mask tmin tmax)) ! i =
     (if cell_less (tmax ! i) (tmin ! i) \<and> tmax ! i \<noteq> Num (- 32767) then tmin ! i
      else tmax ! i)"
  by (simp add: mask_set_get_nth length_swap_mask swap_mask_nth)

lemma enforce_Inr:
  assumes "enforce ds = Inr ds'"
  obtains vn vx where
    "getitem ds ''tmmn'' = Inr vn" "getitem ds ''tmmx'' = Inr vx" "shape vn = shape vx"
    "getitem ds' ''tmmn'' =
       Inr (vn\<lparr>vals := mask_set (vals vn) (swap_mask (vals vn) (vals vx))
                                 (mask_get (vals vx) (swap_mask (vals vn) (vals vx)))\<rparr>)"
    "getitem ds' ''tmmx'' =
       Inr (vx\<lparr>vals := mask_set (vals vx) (swap_mask (vals vn) (vals vx))
                                 (mask_get (vals vn) (swap_mask (vals vn) (vals vx)))\<rparr>)"
    "ds' = setitem (setitem ds ''tmmn''
             (vn\<lparr>vals := mask_set (vals vn) (swap_mask (vals vn) (vals vx))
                                 (mask_get (vals vx) (swap_mask (vals vn) (vals vx)))\<rparr>))
             ''tmmx''
             (vx\<lparr>vals := mask_set (vals vx) (swap_mask (vals vn) (vals vx))
                                 (mask_get (vals vn) (swap_mask (vals vn) (vals vx)))\<rparr>)"
proof -
  from assms obtain vn vx where g: "getitem ds ''tmmn'' = Inr vn" "getitem ds ''tmmx'' = Inr vx"
    and r: "(if shape vn \<noteq> shape vx then Inl (Unmodelled ''broadcasting'')
             else Inr (setitem (setitem ds ''tmmn''
             (vn\<lparr>vals := mask_set (vals vn) (swap_mask (vals vn) (vals vx))
                                 (mask_get (vals vx) (swap_mask (vals vn) (vals vx)))\<rparr>))
             ''tmmx''
             (vx\<lparr>vals := mask_set (vals vx) (swap_mask (vals vn) (vals vx))
                                 (mask_get (vals vn) (swap_mask (vals vn) (vals vx)))\<rparr>))) = Inr ds'"
    unfolding enforce_def bindE_Inr_iff Let_def by blast
  from r have s: "shape vn = shape vx" by (simp split: if_splits)
  with r have d: "ds' = setitem (setitem ds ''tmmn''
             (vn\<lparr>vals := mask_set (vals vn) (swap_mask (vals vn) (vals vx))
                                 (mask_get (vals vx) (swap_mask (vals vn) (vals vx)))\<rparr>))
             ''tmmx''
             (vx\<lparr>vals := mask_set (vals vx) (swap_mask (vals vn) (vals vx))
                                 (mask_get (vals vn) (swap_mask (vals vn) (vals vx)))\<rparr>)"
    by simp
  show thesis
    by (rule that[OF g s _ _ d]) (simp_all add: d getitem_setitem)
qed

lemma swap_mask_after_swap:
  fixes tmin tmax :: "cell list"
  defines "m \<equiv> swap_mask tmin tmax"
  shows "\<forall>p \<in> set (swap_mask (mask_set tmin m (mask_get tmax m))
                               (mask_set tmax m (mask_get tmin m))). \<not> p"
proof
  fix p
  let ?a = "mask_set tmin m (mask_get tmax m)" and ?b = "mask_set tmax m (mask_get tmin m)"
  assume "p \<in> set (swap_mask ?a ?b)"
  then obtain i where i: "i < length (swap_mask ?a ?b)" and p: "p = swap_mask ?a ?b ! i"
    by (auto simp: in_set_conv_nth)
  from i have la: "i < length tmin" and lb: "i < length tmax"
    by (simp_all add: length_swap_mask length_mask_set)
  have "p = (cell_less (?b ! i) (?a ! i) \<and> ?b ! i \<noteq> Num (- 32767))"
    using la lb by (simp add: p swap_mask_nth length_mask_set)
  then show "\<not> p"
    unfolding m_def using la lb
    by (auto simp: swapped_min_nth swapped_max_nth dest: cell_less_asym)
qed

lemma setitem_same: "getitem ds k = Inr v \<Longrightarrow> setitem ds k v = ds"
  by (simp add: getitem_Inr_iff setitem_def AList.update_triv)

lemma setitem_coords: "coords (setitem ds k v) = coords ds"
  by (simp add: setitem_def)

lemma dict_get_update: "dict_get (AList.update k v al) k = Inr v"
  by (simp add: dict_get_def AList.update_conv')

lemma normalize_var_Inr:
  assumes "normalize_var conv var ds = Inr ds'"
  obtains x u uo f where
    "getitem ds var = Inr x" "dict_get (attrs x) ''units'' = Inr u"
    "dict_get new_units var = Inr uo" "conv u uo = Inr f"
    "ds' = setitem ds var
             (x\<lparr>vals := map (\<lambda>v. if cell_less (f v) (Num (- 30000)) then Num (- 32767) else f v) (vals x),
                attrs := AList.update ''units'' uo (attrs x)\<rparr>)"
proof -
  from assms obtain x u uo f where
    g: "getitem ds var = Inr x" "dict_get (attrs x) ''units'' = Inr u"
       "dict_get new_units var = Inr uo" "conv u uo = Inr f"
    and r: "Inr (setitem ds var
                 (x\<lparr>vals := mask_fill (map f (vals x)) (np_lt_scalar (map f (vals x)) (- 30000))
                                      (Num (- 32767)),
                    attrs := AList.update ''units'' uo (attrs x)\<rparr>)) = Inr ds'"
    unfolding normalize_var_def bindE_Inr_iff Let_def by blast
  have "mask_fill (map f (vals x)) (np_lt_scalar (map f (vals x)) (- 30000)) (Num (- 32767)) =
        map (\<lambda>v. if cell_less (f v) (Num (- 30000)) then Num (- 32767) else f v) (vals x)"
    by (simp add: mask_fill_lt o_def)
  with r have "ds' = setitem ds var
             (x\<lparr>vals := map (\<lambda>v. if cell_less (f v) (Num (- 30000)) then Num (- 32767) else f v) (vals x),
                attrs := AList.update ''units'' uo (attrs x)\<rparr>)"
    by simp
  with g show thesis by (rule that)
qed

lemma new_units_temperature:
  "dict_get new_units ''tmmn'' = Inr ''degC''" "dict_get new_units ''tmmx'' = Inr ''degC''"
  by (simp_all add: dict_get_def new_units_def)

lemma normalize_Inr:
  assumes "normalize w ds = Inr ds'" and "var = ''tmmn'' \<or> var = ''tmmx''"
  obtains x u f where
    "getitem ds var = Inr x" "dict_get (attrs x) ''units'' = Inr u"
    "unit_converter w u ''degC'' = Inr f"
    "getitem ds' var =
       Inr (x\<lparr>vals := map (\<lambda>v. if cell_less (f v) (Num (- 30000)) then Num (- 32767) else f v) (vals x),
              attrs := AList.update ''units'' ''degC'' (attrs x)\<rparr>)"
proof -
  from assms(1) obtain ds1 where
    1: "normalize_var (unit_converter w) ''tmmn'' ds = Inr ds1"
    and 2: "normalize_var (unit_converter w) ''tmmx'' ds1 = Inr ds'"
    unfolding normalize_def bindE_Inr_iff by blast
  from 1 obtain xn un uon fn where
    n: "getitem ds ''tmmn'' = Inr xn" "dict_get (attrs xn) ''units'' = Inr un"
       "dict_get new_units ''tmmn'' = Inr uon" "unit_converter w un uon = Inr fn"
       "ds1 = setitem ds ''tmmn''
             (xn\<lparr>vals := map (\<lambda>v. if cell_less (fn v) (Num (- 30000)) then Num (- 32767) else fn v) (vals xn),
                attrs := AList.update ''units'' uon (attrs xn)\<rparr>)"
    by (rule normalize_var_Inr)
  from 2 obtain xx ux uox fx where
    x: "getitem ds1 ''tmmx'' = Inr xx" "dict_get (attrs xx) ''units'' = Inr ux"
       "dict_get new_units ''tmmx'' = Inr uox" "unit_converter w ux uox = Inr fx"
       "ds' = setitem ds1 ''tmmx''
             (xx\<lparr>vals := map (\<lambda>v. if cell_less (fx v) (Num (- 30000)) then Num (- 32767) else fx v) (vals xx),
                attrs := AList.update ''units'' uox (attrs xx)\<rparr>)"
    by (rule normalize_var_Inr)
  from n(3) x(3) have u: "uon = ''degC''" "uox = ''degC''"
    by (simp_all add: new_units_temperature)
  from assms(2) show thesis
  proof
    assume v: "var = ''tmmn''"
    show thesis
      by (rule that[OF _ n(2) n(4)[unfolded u]])
         (simp_all add: v n(1) x(5) n(5) getitem_setitem u)
  next
    assume v: "var = ''tmmx''"
    from x(1) have gx: "getitem ds ''tmmx'' = Inr xx" by (simp add: n(5) getitem_setitem)
    show thesis
      by (rule that[OF _ x(2) x(4)[unfolded u]])
         (simp_all add: v gx x(5) getitem_setitem u)
  qed
qed

lemma normalize_fill_value_cell:
  assumes "normalize w ds = Inr ds'" and "var = ''tmmn'' \<or> var = ''tmmx''"
    and "getitem ds var = Inr x" and "dict_get (attrs x) ''units'' = Inr u"
    and "unit_converter w u ''degC'' = Inr f"
    and "i < length (vals x)" and "vals x ! i = Num (- 32767)"
  shows "\<exists>x'. getitem ds' var = Inr x' \<and>
           vals x' ! i =
             (if cell_less (f (Num (- 32767))) (Num (- 30000)) then Num (- 32767)
              else f (Num (- 32767)))"
proof -
  from assms(1,2) obtain x0 u0 f0 where
    g: "getitem ds var = Inr x0" "dict_get (attrs x0) ''units'' = Inr u0"
       "unit_converter w u0 ''degC'' = Inr f0"
    and r: "getitem ds' var =
       Inr (x0\<lparr>vals := map (\<lambda>v. if cell_less (f0 v) (Num (- 30000)) then Num (- 32767) else f0 v) (vals x0),
              attrs := AList.update ''units'' ''degC'' (attrs x0)\<rparr>)"
    by (rule normalize_Inr)
  from g assms(3-5) have e: "x0 = x" "f0 = f" by auto
  show ?thesis
    using r assms(6,7) unfolding e by auto
qed

subsection \<open>Dates\<close>

lemma cfg_get_Inr_iff:
  "cfg_get cfg sec k = Inr v \<longleftrightarrow> (\<exists>d. map_of cfg sec = Some d \<and> map_of d k = Some v)"
  by (simp add: cfg_get_def bindE_Inr_iff dict_get_Inr_iff)

lemma digit_chars: "list_all (\<lambda>k. char_of (48 + k) = ''0123456789'' ! k) [0 ..< 10]"
  by code_simp

lemma digit_char_nth: "digit_char n = ''0123456789'' ! (n mod 10)"
proof -
  have "n mod 10 \<in> set [0 ..< 10]" by simp
  with digit_chars show ?thesis
    unfolding list_all_iff digit_char_def by blast
qed

lemma digit_char_props:
  "is_digit (digit_char n)" "digit_char n \<noteq> CHR ''-''" "digit_val (digit_char n) = n mod 10"
proof -
  have "n mod 10 \<in> set [0 ..< 10]" by simp
  moreover have "list_all (\<lambda>k. is_digit (''0123456789'' ! k) \<and> ''0123456789'' ! k \<noteq> CHR ''-'' \<and>
                   digit_val (''0123456789'' ! k) = k) [0 ..< 10]"
    by code_simp
  ultimately have "is_digit (''0123456789'' ! (n mod 10)) \<and>
      ''0123456789'' ! (n mod 10) \<noteq> CHR ''-'' \<and> digit_val (''0123456789'' ! (n mod 10)) = n mod 10"
    unfolding list_all_iff by blast
  then show "is_digit (digit_char n)" "digit_char n \<noteq> CHR ''-''"
    "digit_val (digit_char n) = n mod 10"
    by (simp_all add: digit_char_nth)
qed

lemma month_fields: "list_all (\<lambda>m. month_field (two_digits m)) [1 ..< 13]"
  by code_simp

lemma day_fields: "list_all (\<lambda>d. day_field (two_digits d)) [1 ..< 32]"
  by code_simp

lemma decimal_step: "10 \<le> n \<Longrightarrow> decimal n = decimal (n div 10) @ [digit_char n]"
  by (subst decimal.simps) (simp only: not_less[symmetric] if_False)

lemma decimal_digit: "n < 10 \<Longrightarrow> decimal n = [digit_char n]"
  by (subst decimal.simps) (simp only: if_True)

lemma decimal_four:
  assumes "1000 \<le> y" and "y \<le> 9999"
  shows "decimal y = [digit_char (y div 1000), digit_char (y div 100), digit_char (y div 10),
                      digit_char y]"
proof -
  define a b c where "a = y div 10" and "b = y div 100" and "c = y div 1000"
  have ab: "a div 10 = b" and bc: "b div 10 = c"
    unfolding a_def b_def c_def by (simp_all add: div_mult2_eq[symmetric])
  have r: "10 \<le> y" "10 \<le> a" "10 \<le> b" "c < 10"
    using assms unfolding a_def b_def c_def by simp_all
  have "decimal y = decimal a @ [digit_char y]"
    unfolding a_def using r(1) by (rule decimal_step)
  also have "decimal a = decimal b @ [digit_char a]"
    using decimal_step[OF r(2)] by (simp only: ab)
  also have "decimal b = decimal c @ [digit_char b]"
    using decimal_step[OF r(3)] by (simp only: bc)
  also have "decimal c = [digit_char c]"
    using r(4) by (rule decimal_digit)
  finally show ?thesis
    unfolding a_def b_def c_def by simp
qed

lemma two_digits_value: "n < 100 \<Longrightarrow> int_of_digits (two_digits n) = n"
proof -
  assume "n < 100"
  then have "n div 10 mod 10 = n div 10" by simp
  then show ?thesis
    by (simp add: int_of_digits_def two_digits_def digit_char_props)
qed

lemma two_digits_props:
  "list_all is_digit (two_digits n)"
  "takeWhile (\<lambda>c. c \<noteq> CHR ''-'') (two_digits n @ CHR ''-'' # s) = two_digits n"
  "filter is_digit (two_digits n) = two_digits n" "length (two_digits n) = 2"
  by (simp_all add: two_digits_def digit_char_props)

lemma int_of_four_digits:
  assumes "y \<le> 9999"
  shows "int_of_digits [digit_char (y div 1000), digit_char (y div 100), digit_char (y div 10),
                        digit_char y] = y"
proof -
  define a b c where "a = y div 10" and "b = a div 10" and "c = b div 10"
  have c: "c mod 10 = c" using assms unfolding a_def b_def c_def by simp
  have "10 * (10 * (10 * c + b mod 10) + a mod 10) + y mod 10 = y"
    unfolding c_def b_def a_def by simp
  moreover have "y div 100 = b" "y div 1000 = c"
    unfolding a_def b_def c_def by (simp_all add: div_mult2_eq[symmetric])
  ultimately show ?thesis
    by (simp add: int_of_digits_def digit_char_props c a_def[symmetric])
qed

lemma days_in_month_le: "days_in_month y m \<le> 31"
  by (simp add: days_in_month_def)

lemma valid_date_fields:
  assumes "valid_date t"
  shows "month_field (two_digits (month t))" "day_field (two_digits (day t))"
    "month t < 100" "day t < 100"
proof -
  from assms have m: "month t \<in> set [1 ..< 13]" by (simp add: valid_date_def)
  from assms days_in_month_le[of "year t" "month t"] have d: "day t \<in> set [1 ..< 32]"
    by (simp add: valid_date_def)
  from m month_fields show "month_field (two_digits (month t))"
    unfolding list_all_iff by blast
  from d day_fields show "day_field (two_digits (day t))"
    unfolding list_all_iff by blast
  from m d show "month t < 100" "day t < 100" by simp_all
qed

lemma strptime_strftime:
  assumes "valid_date t" and "1000 \<le> year t"
  shows "strptime (strftime t) = Inr (t\<lparr>ns_of_day := 0\<rparr>)"
proof -
  from assms have y: "year t \<le> 9999" "1 \<le> year t"
    and d: "day t \<le> days_in_month (year t) (month t)"
    by (simp_all add: valid_date_def)
  note f = valid_date_fields[OF assms(1)]
  have s: "strftime t =
      digit_char (year t div 1000) # digit_char (year t div 100) # digit_char (year t div 10) #
      digit_char (year t) # CHR ''-'' # (two_digits (month t) @ CHR ''-'' # two_digits (day t))"
    by (simp add: strftime_def decimal_four[OF assms(2) y(1)])
  show ?thesis
    unfolding s strptime_def using assms(2)
    by (simp add: Let_def digit_char_props two_digits_props two_digits_value f
          int_of_four_digits[OF y(1)] y d)
qed

lemma days_before_month_Suc:
  "1 \<le> m \<Longrightarrow> days_before_month y (Suc m) = days_before_month y m + days_in_month y m"
  by (simp add: days_before_month_def)

lemma days_before_month_1: "days_before_month y (Suc 0) = 0"
  by (simp add: days_before_month_def)

lemma upt_1_12: "[1 ..< 12] = [1, 2, 3, 4, 5, 6, 7, 8, 9, 10, 11 :: nat]"
  by code_simp

lemma days_before_month_12:
  "days_before_month y 12 + 31 = (if is_leap y then 366 else 365)"
  unfolding days_before_month_def upt_1_12
  by (simp add: days_in_month_def)

lemma mod_facts:
  fixes y :: nat
  shows "y mod 100 = 0 \<Longrightarrow> y mod 4 = 0" "y mod 400 = 0 \<Longrightarrow> y mod 100 = 0"
proof -
  have "y mod 4 = y mod 100 mod 4" by (simp add: mod_mod_cancel)
  then show "y mod 100 = 0 \<Longrightarrow> y mod 4 = 0" by simp
  have "y mod 100 = y mod 400 mod 100" by (simp add: mod_mod_cancel)
  then show "y mod 400 = 0 \<Longrightarrow> y mod 100 = 0" by simp
qed

lemma days_before_year_Suc:
  assumes "1 \<le> y"
  shows "days_before_year (Suc y) = days_before_year y + (if is_leap y then 366 else 365)"
proof -
  from assms obtain n where y: "y = Suc n" by (cases y) auto
  define a b c where "a = n div 4" and "b = n div 100" and "c = n div 400"
  define p4 p100 p400 where "p4 \<longleftrightarrow> Suc n mod 4 = 0" and "p100 \<longleftrightarrow> Suc n mod 100 = 0"
    and "p400 \<longleftrightarrow> Suc n mod 400 = 0"
  have le: "b \<le> a" "c \<le> b"
    unfolding a_def b_def c_def by (simp_all add: div_le_mono2)
  have imp: "p100 \<longrightarrow> p4" "p400 \<longrightarrow> p100"
    unfolding p4_def p100_def p400_def using mod_facts[of "Suc n"] by blast+
  have d: "Suc n div 4 = (if p4 then Suc a else a)" "Suc n div 100 = (if p100 then Suc b else b)"
    "Suc n div 400 = (if p400 then Suc c else c)"
    unfolding a_def b_def c_def p4_def p100_def p400_def by (simp_all add: div_Suc)
  have l: "days_before_year (Suc (Suc n)) =
      Suc n * 365 + (if p4 then Suc a else a) - (if p100 then Suc b else b) +
      (if p400 then Suc c else c)"
    unfolding d[symmetric] by (simp add: days_before_year_def)
  have r: "days_before_year (Suc n) = n * 365 + a - b + c"
    unfolding a_def b_def c_def by (simp add: days_before_year_def)
  have leap: "is_leap (Suc n) \<longleftrightarrow> p4 \<and> (\<not> p100 \<or> p400)"
    unfolding is_leap_def p4_def p100_def p400_def ..
  show ?thesis
    unfolding y l r leap using le imp
    by (cases p4; cases p100; cases p400) simp_all
qed

lemma add_one_day_ordinal:
  assumes "valid_date t"
  shows "toordinal (add_one_day t) = toordinal t + 1"
proof -
  from assms have v: "1 \<le> year t" "1 \<le> month t" "month t \<le> 12"
    "day t \<le> days_in_month (year t) (month t)"
    by (simp_all add: valid_date_def)
  show ?thesis
  proof (cases "day t < days_in_month (year t) (month t)")
    case True
    then show ?thesis by (simp add: add_one_day_def toordinal_def)
  next
    case False
    with v(4) have d: "day t = days_in_month (year t) (month t)" by simp
    show ?thesis
    proof (cases "month t < 12")
      case True
      have "add_one_day t = t\<lparr>month := month t + 1, day := 1\<rparr>"
        using False True by (simp add: add_one_day_def)
      then show ?thesis
        using days_before_month_Suc[OF v(2), of "year t"] d
        by (simp add: toordinal_def)
    next
      case m: False
      with v(3) have m12: "month t = 12" by simp
      have a: "add_one_day t = t\<lparr>year := year t + 1, month := 1, day := 1\<rparr>"
        using False m by (simp add: add_one_day_def)
      have d31: "day t = 31" using d m12 by (simp add: days_in_month_def)
      have "toordinal (add_one_day t) = days_before_year (Suc (year t)) + 1"
        unfolding a by (simp add: toordinal_def days_before_month_1)
      also have "\<dots> = days_before_year (year t) + (days_before_month (year t) 12 + 31) + 1"
        unfolding days_before_year_Suc[OF v(1)] days_before_month_12 by simp
      also have "\<dots> = toordinal t + 1"
        by (simp add: toordinal_def m12 d31)
      finally show ?thesis .
    qed
  qed
qed

lemma add_one_day_valid:
  assumes "valid_date t" and "year (add_one_day t) \<le> 9999"
  shows "valid_date (add_one_day t)"
proof -
  from assms(1) have v: "1 \<le> year t" "year t \<le> 9999" "1 \<le> month t" "month t \<le> 12"
    "1 \<le> day t" "day t \<le> days_in_month (year t) (month t)"
    by (simp_all add: valid_date_def)
  have p: "1 \<le> days_in_month y m" for y m
    by (simp add: days_in_month_def)
  consider (same) "day t < days_in_month (year t) (month t)"
    | (next_month) "\<not> day t < days_in_month (year t) (month t)" "month t < 12"
    | (next_year) "\<not> day t < days_in_month (year t) (month t)" "\<not> month t < 12"
    by blast
  then show ?thesis
  proof cases
    case same
    with v show ?thesis by (simp add: valid_date_def add_one_day_def)
  next
    case next_month
    with v p[of "year t" "Suc (month t)"] show ?thesis
      by (simp add: valid_date_def add_one_day_def)
  next
    case next_year
    with v p[of "Suc (year t)" 1] assms(2) show ?thesis
      by (simp add: valid_date_def add_one_day_def)
  qed
qed

lemma strftime_ns_of_day: "strftime (t\<lparr>ns_of_day := n\<rparr>) = strftime t"
  by (simp add: strftime_def)

lemma strftime_cong:
  "year a = year b \<Longrightarrow> month a = month b \<Longrightarrow> day a = day b \<Longrightarrow> strftime a = strftime b"
  by (simp add: strftime_def)

lemma last_time_Inr:
  "map_of (coords ds) ''time'' = Some (TimeAxis ts) \<Longrightarrow> ts \<noteq> [] \<Longrightarrow> last_time ds = Inr (last ts)"
  by (simp add: last_time_def)

lemma window_Inr:
  assumes "map_of (coords ds) ''time'' = Some (TimeAxis ts)" and "ts \<noteq> []"
    and "cfg_get cfg ''MONITOR'' ''End_Date'' = Inr prior_end"
    and "strptime prior_end = Inr d"
    and "year (add_one_day d) \<le> 9999"
    and "timestamp_le (add_one_day (last ts)) timestamp_max"
  shows "window cfg ds =
           Inr (strftime (add_one_day d), strftime (last ts), strftime (add_one_day (last ts)))"
  using assms(3-6)
  by (simp add: window_def last_time_Inr[OF assms(1,2)] bindE_def datetime_add_day_def
        timestamp_add_day_def Let_def)

lemma strptime_example:
  "strptime ''2024-01-10'' = Inr \<lparr>year = 2024, month = 1, day = 10, ns_of_day = 0\<rparr>"
  "strptime ''2023-12-31'' = Inr \<lparr>year = 2023, month = 12, day = 31, ns_of_day = 0\<rparr>"
  by code_simp+

lemma strftime_example:
  "strftime \<lparr>year = 2024, month = 1, day = 11, ns_of_day = 0\<rparr> = ''2024-01-11''"
  "strftime \<lparr>year = 2024, month = 4, day = 9, ns_of_day = 0\<rparr> = ''2024-04-09''"
  "strftime \<lparr>year = 2024, month = 4, day = 10, ns_of_day = 0\<rparr> = ''2024-04-10''"
  "strftime \<lparr>year = 2024, month = 1, day = 10, ns_of_day = 0\<rparr> = ''2024-01-10''"
  "strftime \<lparr>year = 2024, month = 1, day = 1, ns_of_day = 0\<rparr> = ''2024-01-01''"
  "strftime \<lparr>year = 2024, month = 2, day = 28, ns_of_day = 0\<rparr> = ''2024-02-28''"
  "strftime \<lparr>year = 2024, month = 2, day = 29, ns_of_day = 0\<rparr> = ''2024-02-29''"
  "strftime \<lparr>year = 999, month = 6, day = 16, ns_of_day = 0\<rparr> = ''999-06-16''"
  by code_simp+

lemma add_one_day_ns_of_day:
  "add_one_day (t\<lparr>ns_of_day := n\<rparr>) = (add_one_day t)\<lparr>ns_of_day := n\<rparr>"
  by (simp add: add_one_day_def)

lemma strftime_length:
  assumes "valid_date t" and "1000 \<le> year t"
  shows "length (strftime t) = 10"
proof -
  from assms have y: "year t \<le> 9999" by (simp add: valid_date_def)
  show ?thesis by (simp add: strftime_def decimal_four[OF assms(2) y] two_digits_def)
qed

lemma year_add_one_day: "year t \<le> year (add_one_day t)"
  by (simp add: add_one_day_def)

lemma timestamp_le_year: "timestamp_le a b \<Longrightarrow> year a \<le> year b"
  by (auto simp: timestamp_le_def)

lemma window_strings:
  assumes cfg: "cfg_get cfg ''MONITOR'' ''End_Date'' = Inr (strftime p)"
    and p: "valid_date p" "1000 \<le> year p" "year (add_one_day p) \<le> 9999"
    and ts: "map_of (coords ds) ''time'' = Some (TimeAxis ts)" "ts \<noteq> []"
    and l: "valid_date (last ts)" "timestamp_le (add_one_day (last ts)) timestamp_max"
  shows "window cfg ds =
           Inr (strftime (add_one_day p), strftime (last ts), strftime (add_one_day (last ts)))"
proof -
  have y: "year (add_one_day (p\<lparr>ns_of_day := 0\<rparr>)) \<le> 9999"
    using p(3) by (simp add: add_one_day_ns_of_day)
  from window_Inr[OF ts cfg strptime_strftime[OF p(1,2)] y l(2)]
  show ?thesis by (simp add: add_one_day_ns_of_day strftime_ns_of_day)
qed

lemma regrid_step_cases:
  assumes "remapcon w grid_file temporary outfile (to_netcdf temporary files) = (r, files2)"
  shows "r = None \<Longrightarrow> regrid_step w grid_file temporary outfile files = os_remove temporary files2"
    and "r = Some e \<Longrightarrow> regrid_step w grid_file temporary outfile files = (Some e, files2)"
  using assms by (simp_all add: regrid_step_def Let_def)

lemma os_remove_absent: "path \<notin> snd (os_remove path files)"
  by (simp add: os_remove_def)

lemma stage_and_regrid_cases:
  shows "netcdf_write_error w ds temporary files = None \<Longrightarrow>
           stage_and_regrid w ds grid_file temporary outfile files =
             regrid_step w grid_file temporary outfile files"
    and "netcdf_write_error w ds temporary files = Some (e, files1) \<Longrightarrow>
           stage_and_regrid w ds grid_file temporary outfile files = (Some e, files1)"
  by (simp_all add: stage_and_regrid_def)

subsection \<open>Renaming\<close>

lemma rename_name_neq: "k \<noteq> v \<Longrightarrow> rename_name k v n \<noteq> k" "k \<noteq> v \<Longrightarrow> k \<noteq> rename_name k v n"
  by (simp_all add: rename_name_def)

lemma map_of_rename_keys:
  "v \<notin> fst ` set al \<Longrightarrow> k \<noteq> v \<Longrightarrow>
   map_of (map (\<lambda>(n, a). (rename_name k v n, f a)) al) v = map_option f (map_of al k)"
  by (induction al) (auto simp: rename_name_def)

lemma rename_ds_Inr:
  assumes "rename_ds k v ds = Inr ds'" and "k \<noteq> v"
  shows "v \<notin> set (ds_names ds)"
    and "data_vars ds' = map (\<lambda>(n, x). (rename_name k v n,
                                           x\<lparr>dims := map (rename_name k v) (dims x)\<rparr>))
                              (data_vars ds)"
    and "coords ds' = map (\<lambda>(n, a). (rename_name k v n, a)) (coords ds)"
  using assms by (auto simp: rename_ds_def split: if_splits)

lemma rename_ds_old_name_gone:
  assumes "rename_ds k v ds = Inr ds'" and "k \<noteq> v"
  shows "k \<notin> set (ds_names ds')" and "k \<notin> set (ds_dims ds')"
  using rename_name_neq[OF assms(2)]
  by (auto simp: ds_names_def ds_dims_def rename_ds_Inr(2,3)[OF assms])

lemma rename_ds_coord:
  assumes "rename_ds k v ds = Inr ds'" and "k \<noteq> v"
  shows "map_of (coords ds') v = map_of (coords ds) k"
proof -
  from rename_ds_Inr(1)[OF assms] have "v \<notin> fst ` set (coords ds)"
    by (auto simp: ds_names_def)
  from map_of_rename_keys[OF this assms(2), of id]
  show ?thesis by (simp add: rename_ds_Inr(3)[OF assms] option.map_id)
qed

lemma rename_ds_data_var:
  assumes "rename_ds k v ds = Inr ds'" and "k \<noteq> v" and "getitem ds k = Inr x"
  shows "getitem ds' v = Inr (x\<lparr>dims := map (rename_name k v) (dims x)\<rparr>)"
proof -
  from rename_ds_Inr(1)[OF assms(1,2)] have "v \<notin> fst ` set (data_vars ds)"
    by (auto simp: ds_names_def)
  from map_of_rename_keys[OF this assms(2),
      of "\<lambda>x. x\<lparr>dims := map (rename_name k v) (dims x)\<rparr>"] assms(3)
  show ?thesis
    by (simp add: getitem_Inr_iff rename_ds_Inr(2)[OF assms(1,2)])
qed

subsection \<open>Merging\<close>

lemma merge_vars_Inr:
  assumes "merge_vars acc vs = Inr r"
  shows "map_of acc n = Some v \<Longrightarrow> map_of r n = Some v"
    and "(n, v) \<in> set vs \<Longrightarrow>
           \<exists>v'. map_of r n = Some v' \<and> dims v' = dims v \<and> shape v' = shape v \<and> vals v' = vals v"
  using assms
proof (induction acc vs arbitrary: n v rule: merge_vars.induct)
  case (1 acc)
  { case 1 then show ?case by simp }
  { case 2 then show ?case by simp }
next
  case (2 acc m u rest)
  { case 1
    show ?case
    proof (cases "map_of acc m")
      case None
      with 1 have r: "merge_vars (acc @ [(m, u)]) rest = Inr r" by simp
      from 1(1) have "map_of (acc @ [(m, u)]) n = Some v" by (simp add: map_add_Some_iff)
      from "2.IH"(1)[OF None this r] show ?thesis .
    next
      case (Some u')
      with 1 have e: "dims u' = dims u \<and> shape u' = shape u \<and> vals u' = vals u"
        and r: "merge_vars acc rest = Inr r" by (simp_all split: if_splits)
      from "2.IH"(3)[OF Some e 1(1) r] show ?thesis .
    qed }
  { case 2
    show ?case
    proof (cases "map_of acc m")
      case None
      with 2 have r: "merge_vars (acc @ [(m, u)]) rest = Inr r" by simp
      show ?thesis
      proof (cases "(n, v) = (m, u)")
        case True
        have "map_of (acc @ [(m, u)]) m = Some u" using None by (simp add: map_add_Some_iff)
        from "2.IH"(1)[OF None this r] True show ?thesis by auto
      next
        case False
        with 2(1) have "(n, v) \<in> set rest" by auto
        from "2.IH"(2)[OF None this r] show ?thesis .
      qed
    next
      case (Some u')
      with 2 have e: "dims u' = dims u \<and> shape u' = shape u \<and> vals u' = vals u"
        and r: "merge_vars acc rest = Inr r" by (simp_all split: if_splits)
      show ?thesis
      proof (cases "(n, v) = (m, u)")
        case True
        from "2.IH"(3)[OF Some e Some r] True e show ?thesis by auto
      next
        case False
        with 2(1) have "(n, v) \<in> set rest" by auto
        from "2.IH"(4)[OF Some e this r] show ?thesis .
      qed
    qed }
qed

lemma merge_into_Inr:
  assumes "merge_into acc dlist = Inr r"
  shows "map_of (data_vars acc) n = Some v \<Longrightarrow> map_of (data_vars r) n = Some v"
    and "d \<in> set dlist \<Longrightarrow> map_of (data_vars d) n = Some v \<Longrightarrow>
           \<exists>v'. map_of (data_vars r) n = Some v' \<and>
                dims v' = dims v \<and> shape v' = shape v \<and> vals v' = vals v"
  using assms
proof (induction acc dlist arbitrary: n v rule: merge_into.induct)
  case (1 acc)
  { case 1 then show ?case by simp }
  { case 2 then show ?case by simp }
next
  case (2 acc d0 rest)
  { case 1
    from 1(2) obtain dv cs where
      c: "\<not> (set (map fst (data_vars d0)) \<inter> set (map fst (coords acc)) \<noteq> {}
           \<or> set (map fst (coords d0)) \<inter> set (map fst (data_vars acc)) \<noteq> {})"
      and dv: "merge_vars (data_vars acc) (data_vars d0) = Inr dv"
      and cs: "merge_coords (coords acc) (coords d0) = Inr cs"
      and r: "merge_into \<lparr>data_vars = dv, coords = cs\<rparr> rest = Inr r"
      by (auto simp: bindE_Inr_iff split: if_splits)
    from merge_vars_Inr(1)[OF dv 1(1)]
    have "map_of (data_vars \<lparr>data_vars = dv, coords = cs\<rparr>) n = Some v"
      by simp
    from "2.IH"(1)[OF c this r] show ?case . }
  { case 2
    from 2(3) obtain dv cs where
      c: "\<not> (set (map fst (data_vars d0)) \<inter> set (map fst (coords acc)) \<noteq> {}
           \<or> set (map fst (coords d0)) \<inter> set (map fst (data_vars acc)) \<noteq> {})"
      and dv: "merge_vars (data_vars acc) (data_vars d0) = Inr dv"
      and cs: "merge_coords (coords acc) (coords d0) = Inr cs"
      and r: "merge_into \<lparr>data_vars = dv, coords = cs\<rparr> rest = Inr r"
      by (auto simp: bindE_Inr_iff split: if_splits)
    show ?case
    proof (cases "d = d0")
      case True
      with 2(2) have "(n, v) \<in> set (data_vars d0)" by (simp add: map_of_SomeD)
      from merge_vars_Inr(2)[OF dv this] obtain v' where
        v': "map_of dv n = Some v'" "dims v' = dims v" "shape v' = shape v" "vals v' = vals v"
        by blast
      from v'(1) have "map_of (data_vars \<lparr>data_vars = dv, coords = cs\<rparr>) n = Some v'" by simp
      from "2.IH"(1)[OF c this r] v'(2-4) show ?thesis by auto
    next
      case False
      with 2(1) have "d \<in> set rest" by simp
      from "2.IH"(2)[OF c this 2(2) r] show ?thesis .
    qed }
qed

lemma xr_merge_Inr:
  assumes "xr_merge dlist = Inr merged" and "d \<in> set dlist" and "getitem d n = Inr v"
  shows "\<exists>v'. getitem merged n = Inr v' \<and>
              dims v' = dims v \<and> shape v' = shape v \<and> vals v' = vals v"
  using merge_into_Inr(2)[OF assms(1)[unfolded xr_merge_def] assms(2)] assms(3)
  by (simp add: getitem_Inr_iff)

lemma fetch_loop_temperature:
  assumes "fetch_loop opn varnames [] = Inr dlist"
  obtains dx dx' dn dn' where
    "opn (url ''tmmx'') = Inr dx" "rename_ds ''air_temperature'' ''tmmx'' dx = Inr dx'"
    "opn (url ''tmmn'') = Inr dn" "rename_ds ''air_temperature'' ''tmmn'' dn = Inr dn'"
    "dx' \<in> set dlist" "dn' \<in> set dlist"
  using assms by (auto simp: varnames_def bindE_Inr_iff)

subsection \<open>Dimensions and shapes through the pipeline\<close>

lemma update_same_dims:
  "map_of al k = Some x \<Longrightarrow> dims x' = dims x \<Longrightarrow> shape x' = shape x \<Longrightarrow>
   map (\<lambda>(n, y). (n, dims y, shape y)) (AList.update k x' al) =
   map (\<lambda>(n, y). (n, dims y, shape y)) al"
  by (induction al) (auto split: if_splits)

lemma setitem_same_dims:
  "getitem ds k = Inr x \<Longrightarrow> dims x' = dims x \<Longrightarrow> shape x' = shape x \<Longrightarrow>
   map (\<lambda>(n, y). (n, dims y, shape y)) (data_vars (setitem ds k x')) =
   map (\<lambda>(n, y). (n, dims y, shape y)) (data_vars ds)"
  by (simp add: setitem_def getitem_Inr_iff update_same_dims)

lemma normalize_var_same_dims:
  assumes "normalize_var conv var ds = Inr ds'"
  shows "map (\<lambda>(n, y). (n, dims y, shape y)) (data_vars ds') =
         map (\<lambda>(n, y). (n, dims y, shape y)) (data_vars ds)"
    and "coords ds' = coords ds"
proof -
  from assms obtain x u uo f where
    g: "getitem ds var = Inr x"
    and d: "ds' = setitem ds var
             (x\<lparr>vals := map (\<lambda>v. if cell_less (f v) (Num (- 30000)) then Num (- 32767) else f v)
                             (vals x),
                attrs := AList.update ''units'' uo (attrs x)\<rparr>)"
    by (rule normalize_var_Inr)
  show "map (\<lambda>(n, y). (n, dims y, shape y)) (data_vars ds') =
        map (\<lambda>(n, y). (n, dims y, shape y)) (data_vars ds)"
    unfolding d by (rule setitem_same_dims[OF g]) simp_all
  show "coords ds' = coords ds"
    unfolding d by (rule setitem_coords)
qed

lemma normalize_same_dims:
  assumes "normalize w ds = Inr ds'"
  shows "map (\<lambda>(n, y). (n, dims y, shape y)) (data_vars ds') =
         map (\<lambda>(n, y). (n, dims y, shape y)) (data_vars ds)"
    and "coords ds' = coords ds"
proof -
  from assms obtain ds1 where
    1: "normalize_var (unit_converter w) ''tmmn'' ds = Inr ds1"
    and 2: "normalize_var (unit_converter w) ''tmmx'' ds1 = Inr ds'"
    unfolding normalize_def bindE_Inr_iff by blast
  show "map (\<lambda>(n, y). (n, dims y, shape y)) (data_vars ds') =
        map (\<lambda>(n, y). (n, dims y, shape y)) (data_vars ds)"
    by (simp add: normalize_var_same_dims(1)[OF 1] normalize_var_same_dims(1)[OF 2])
  show "coords ds' = coords ds"
    by (simp add: normalize_var_same_dims(2)[OF 1] normalize_var_same_dims(2)[OF 2])
qed

lemma enforce_same_dims:
  assumes "enforce ds = Inr ds'"
  shows "map (\<lambda>(n, y). (n, dims y, shape y)) (data_vars ds') =
         map (\<lambda>(n, y). (n, dims y, shape y)) (data_vars ds)"
    and "coords ds' = coords ds"
proof -
  from assms obtain vn vx where
    g: "getitem ds ''tmmn'' = Inr vn" "getitem ds ''tmmx'' = Inr vx"
    and d: "ds' = setitem (setitem ds ''tmmn''
             (vn\<lparr>vals := mask_set (vals vn) (swap_mask (vals vn) (vals vx))
                                 (mask_get (vals vx) (swap_mask (vals vn) (vals vx)))\<rparr>))
             ''tmmx''
             (vx\<lparr>vals := mask_set (vals vx) (swap_mask (vals vn) (vals vx))
                                 (mask_get (vals vn) (swap_mask (vals vn) (vals vx)))\<rparr>)"
    by (rule enforce_Inr)
  let ?ds1 = "setitem ds ''tmmn''
             (vn\<lparr>vals := mask_set (vals vn) (swap_mask (vals vn) (vals vx))
                                 (mask_get (vals vx) (swap_mask (vals vn) (vals vx)))\<rparr>)"
  have 1: "map (\<lambda>(n, y). (n, dims y, shape y)) (data_vars ?ds1) =
           map (\<lambda>(n, y). (n, dims y, shape y)) (data_vars ds)"
    by (rule setitem_same_dims[OF g(1)]) simp_all
  have gx: "getitem ?ds1 ''tmmx'' = Inr vx"
    by (simp add: getitem_setitem g(2))
  have 2: "map (\<lambda>(n, y). (n, dims y, shape y)) (data_vars ds') =
           map (\<lambda>(n, y). (n, dims y, shape y)) (data_vars ?ds1)"
    unfolding d by (rule setitem_same_dims[OF gx]) simp_all
  show "map (\<lambda>(n, y). (n, dims y, shape y)) (data_vars ds') =
        map (\<lambda>(n, y). (n, dims y, shape y)) (data_vars ds)"
    by (simp add: 1 2)
  show "coords ds' = coords ds"
    unfolding d by (simp add: setitem_coords)
qed

lemma ds_names_var_dims:
  "ds_names ds =
     map fst (map (\<lambda>(n, y). (n, dims y, shape y)) (data_vars ds)) @ map fst (coords ds)"
  by (simp add: ds_names_def o_def case_prod_unfold)

lemma var_dims_mem:
  assumes "(n, x) \<in> set (data_vars ds)"
    and "map (\<lambda>(n, y). (n, dims y, shape y)) (data_vars ds) =
         map (\<lambda>(n, y). (n, dims y, shape y)) (data_vars ds0)"
  shows "\<exists>x0. (n, x0) \<in> set (data_vars ds0) \<and> dims x0 = dims x \<and> shape x0 = shape x"
proof -
  from assms(1) have "(n, dims x, shape x) \<in> set (map (\<lambda>(n, y). (n, dims y, shape y)) (data_vars ds))"
    by force
  with assms(2) have "(n, dims x, shape x) \<in> set (map (\<lambda>(n, y). (n, dims y, shape y)) (data_vars ds0))"
    by simp
  then show ?thesis by auto
qed

lemma map_of_map_values: "map_of (map (\<lambda>(n, y). (n, f y)) al) k = map_option f (map_of al k)"
  by (induction al) auto

lemma getitem_same_dims:
  assumes "getitem ds0 n = Inr x0"
    and "map (\<lambda>(n, y). (n, dims y, shape y)) (data_vars ds) =
         map (\<lambda>(n, y). (n, dims y, shape y)) (data_vars ds0)"
  shows "\<exists>x. getitem ds n = Inr x \<and> dims x = dims x0 \<and> shape x = shape x0"
proof -
  from assms(1) have "map_of (data_vars ds0) n = Some x0" by (simp add: getitem_Inr_iff)
  then have "map_of (map (\<lambda>(n, y). (n, dims y, shape y)) (data_vars ds0)) n =
      Some (dims x0, shape x0)"
    by (simp add: map_of_map_values)
  then have "map_option (\<lambda>y. (dims y, shape y)) (map_of (data_vars ds) n) = Some (dims x0, shape x0)"
    by (simp add: assms(2)[symmetric] map_of_map_values)
  then show ?thesis by (auto simp: getitem_Inr_iff)
qed

subsection \<open>Transposition\<close>

lemma dims_transpose_var:
  "dims (transpose_var new_dims x) = (if length new_dims < 2 then dims x else new_dims)"
  by (simp add: transpose_var_def Let_def split: prod.splits)

lemma transpose_ds_Inr:
  assumes "transpose_ds order ds = Inr ds'"
  shows "set order = set (ds_dims ds)"
    and "data_vars ds' =
           map (\<lambda>(n, x). (n, transpose_var (filter (\<lambda>d. d \<in> set (dims x)) order) x))
               (data_vars ds)"
    and "coords ds' = coords ds"
  using assms by (auto simp: transpose_ds_def split: if_splits)

lemma dims_subset_ds_dims: "(n, x) \<in> set (data_vars ds) \<Longrightarrow> set (dims x) \<subseteq> set (ds_dims ds)"
  by (auto simp: ds_dims_def)

lemma set_filter_order: "set ds \<subseteq> set order \<Longrightarrow> set (filter (\<lambda>d. d \<in> set ds) order) = set ds"
  by auto

lemma transpose_ds_getitem:
  assumes "transpose_ds order ds = Inr ds'" and "getitem ds n = Inr x"
  shows "getitem ds' n = Inr (transpose_var (filter (\<lambda>d. d \<in> set (dims x)) order) x)"
    and "set (dims x) \<subseteq> set order"
proof -
  from assms(2) have m: "map_of (data_vars ds) n = Some x" by (simp add: getitem_Inr_iff)
  then show "getitem ds' n = Inr (transpose_var (filter (\<lambda>d. d \<in> set (dims x)) order) x)"
    by (simp add: getitem_Inr_iff transpose_ds_Inr(2)[OF assms(1)]
          map_of_map_values[of "\<lambda>x. transpose_var (filter (\<lambda>d. d \<in> set (dims x)) order) x"])
  from m have "(n, x) \<in> set (data_vars ds)" by (rule map_of_SomeD)
  from dims_subset_ds_dims[OF this] show "set (dims x) \<subseteq> set order"
    by (simp add: transpose_ds_Inr(1)[OF assms(1)])
qed

lemma short_distinct_same_set:
  assumes "distinct xs" and "distinct ys" and "set xs = set ys" and "length ys < 2"
  shows "xs = ys"
proof -
  from assms(1-3) have "length xs = length ys"
    by (metis distinct_card)
  with assms(4) have l: "length xs < 2" by simp
  show ?thesis
  proof (cases xs)
    case Nil
    with assms(3) show ?thesis by simp
  next
    case (Cons a as)
    with l have xs: "xs = [a]" by (cases as) simp_all
    from assms(4) consider "ys = []" | b where "ys = [b]"
      by (cases ys; cases "tl ys") auto
    then show ?thesis using assms(3) xs by cases auto
  qed
qed

lemma transposed_dims:
  assumes "set (dims x) \<subseteq> set order"
  defines "x' \<equiv> transpose_var (filter (\<lambda>d. d \<in> set (dims x)) order) x"
  shows "set (dims x') = set (dims x)"
    and "2 \<le> card (set (dims x)) \<Longrightarrow> dims x' = filter (\<lambda>d. d \<in> set (dims x')) order"
    and "distinct (dims x') \<Longrightarrow> distinct order \<Longrightarrow>
           dims x' = filter (\<lambda>d. d \<in> set (dims x')) order"
proof -
  define nd where "nd = filter (\<lambda>d. d \<in> set (dims x)) order"
  have s: "set nd = set (dims x)" unfolding nd_def using assms(1) by (rule set_filter_order)
  have dx: "dims x' = (if length nd < 2 then dims x else nd)"
    unfolding x'_def nd_def by (rule dims_transpose_var)
  show 1: "set (dims x') = set (dims x)"
    by (simp add: dx s)
  have nd': "filter (\<lambda>d. d \<in> set (dims x')) order = nd"
    unfolding 1 nd_def ..
  { assume "2 \<le> card (set (dims x))"
    with s have "2 \<le> card (set nd)" by simp
    also have "\<dots> \<le> length nd" by (rule card_length)
    finally have "dims x' = nd" by (simp add: dx)
    with nd' show "dims x' = filter (\<lambda>d. d \<in> set (dims x')) order" by (rule ssubst) }
  { assume d: "distinct (dims x')" and o: "distinct order"
    have "dims x' = nd"
    proof (cases "length nd < 2")
      case False
      then show ?thesis by (simp add: dx)
    next
      case True
      then have e: "dims x' = dims x" by (simp add: dx)
      from o have "distinct nd" unfolding nd_def by simp
      from short_distinct_same_set[OF d this _ True] 1 s show ?thesis by simp
    qed
    with nd' show "dims x' = filter (\<lambda>d. d \<in> set (dims x')) order" by (rule ssubst) }
qed

subsection \<open>What a transposition keeps\<close>

lemma index_of_less: "y \<in> set xs \<Longrightarrow> index_of xs y < length xs"
  by (induction xs) auto

lemma nth_index_of: "y \<in> set xs \<Longrightarrow> xs ! index_of xs y = y"
  by (induction xs) auto

lemma index_of_nth: "distinct xs \<Longrightarrow> i < length xs \<Longrightarrow> index_of xs (xs ! i) = i"
proof (induction xs arbitrary: i)
  case Nil
  then show ?case by simp
next
  case (Cons x xs)
  then show ?case by (cases i) auto
qed

lemma ravel_less: "list_all2 (\<lambda>i n. i < n) idx shp \<Longrightarrow> ravel shp idx < prod_list shp"
proof (induction rule: list_all2_induct)
  case Nil
  then show ?case by simp
next
  case (Cons i js n ns)
  define P where "P = prod_list ns"
  define r where "r = ravel ns js"
  from Cons have r: "r < P" by (simp add: P_def r_def)
  from Cons(1) have "Suc i \<le> n" by simp
  then have "Suc i * P \<le> n * P" by (rule mult_le_mono1)
  with r have "i * P + r < n * P" by simp
  then show ?case by (simp add: P_def r_def)
qed

lemma unravel_ravel: "list_all2 (\<lambda>i n. i < n) idx shp \<Longrightarrow> unravel shp (ravel shp idx) = idx"
proof (induction rule: list_all2_induct)
  case Nil
  then show ?case by simp
next
  case (Cons i js n ns)
  from ravel_less[OF Cons(2)] have r: "ravel ns js < prod_list ns" .
  then show ?case using Cons(3) by simp
qed

lemma map_nth_index_of:
  assumes "distinct ds" and "length shp = length ds"
  shows "map (\<lambda>d. shp ! index_of ds d) ds = shp"
proof (rule nth_equalityI)
  show "length (map (\<lambda>d. shp ! index_of ds d) ds) = length shp" using assms(2) by simp
next
  fix i assume "i < length (map (\<lambda>d. shp ! index_of ds d) ds)"
  then have i: "i < length ds" by simp
  then show "map (\<lambda>d. shp ! index_of ds d) ds ! i = shp ! i"
    by (simp add: index_of_nth[OF assms(1) i])
qed

lemma prod_list_permuted:
  assumes "distinct xs" and "distinct ys" and "set xs = set ys"
  shows "prod_list (map f xs) = (prod_list (map f ys) :: nat)"
proof -
  from assms have "mset xs = mset ys" by (simp add: set_eq_iff_mset_eq_distinct)
  then have "mset (map f xs) = mset (map f ys)" by simp
  then have "prod_mset (mset (map f xs)) = prod_mset (mset (map f ys))" by (rule arg_cong)
  then show ?thesis by (simp only: prod_mset_prod_list)
qed

lemma shape_by_dim_size:
  "wf_variable x \<Longrightarrow> map (dim_size x) (dims x) = shape x"
  using map_nth_index_of[of "dims x" "shape x"]
  by (simp add: wf_variable_def dim_size_def[abs_def])

lemma permuted_index:
  assumes d: "distinct ds" and n: "distinct nd" and s: "set nd = set ds" and b: "b < length ds"
  shows "map a nd ! index_of (map (index_of ds) nd) b = a (ds ! b)"
proof -
  let ?axes = "map (index_of ds) nd"
  from b s have m: "ds ! b \<in> set nd" by simp
  have "index_of ds (ds ! b) = b" by (rule index_of_nth[OF d b])
  with m have bm: "b \<in> set ?axes" by force
  let ?j = "index_of ?axes b"
  from index_of_less[OF bm] have j: "?j < length nd" by simp
  from nth_index_of[OF bm] j have "index_of ds (nd ! ?j) = b" by simp
  moreover from j s have "nd ! ?j \<in> set ds" by (metis nth_mem)
  ultimately have "ds ! b = nd ! ?j" using nth_index_of by metis
  with j show ?thesis by simp
qed

lemma transpose_var_long:
  assumes "\<not> length nd < 2"
  shows "transpose_var nd x =
     x\<lparr>dims := nd, shape := map (\<lambda>d. shape x ! index_of (dims x) d) nd,
       vals := map (\<lambda>k. vals x ! ravel (shape x)
                      (map (\<lambda>b. unravel (map (\<lambda>d. shape x ! index_of (dims x) d) nd) k !
                                index_of (map (index_of (dims x)) nd) b)
                           [0 ..< length (shape x)]))
                   [0 ..< length (vals x)]\<rparr>"
  using assms by (simp add: transpose_var_def np_transpose_def Let_def o_def)

lemma transpose_var_keeps:
  assumes wf: "wf_variable x" and n: "distinct nd" and s: "set nd = set (dims x)"
  defines "x' \<equiv> transpose_var nd x"
  shows "dims x' = nd" and "wf_variable x'"
    and "d \<in> set (dims x) \<Longrightarrow> dim_size x' d = dim_size x d"
    and "\<forall>d \<in> set (dims x). a d < dim_size x d \<Longrightarrow> cell_at x' a = cell_at x a"
proof -
  from wf have dd: "distinct (dims x)" and ls: "length (shape x) = length (dims x)"
    and lv: "length (vals x) = prod_list (shape x)"
    by (simp_all add: wf_variable_def)
  have "dims x' = nd \<and> wf_variable x' \<and>
    (d \<in> set (dims x) \<longrightarrow> dim_size x' d = dim_size x d) \<and>
    ((\<forall>d \<in> set (dims x). a d < dim_size x d) \<longrightarrow> cell_at x' a = cell_at x a)"
  proof (cases "length nd < 2")
    case True
    then have e: "x' = x" by (simp add: x'_def transpose_var_def)
    from short_distinct_same_set[OF dd n s[symmetric] True] have "dims x = nd" .
    then show ?thesis using wf by (simp add: e)
  next
    case False
    define shp' where "shp' = map (dim_size x) nd"
    define axes where "axes = map (index_of (dims x)) nd"
    have sh: "map (\<lambda>d. shape x ! index_of (dims x) d) nd = shp'"
      by (simp add: shp'_def dim_size_def[abs_def])
    have x': "x' = x\<lparr>dims := nd, shape := shp',
       vals := map (\<lambda>k. vals x ! ravel (shape x)
                      (map (\<lambda>b. unravel shp' k ! index_of axes b) [0 ..< length (shape x)]))
                   [0 ..< length (vals x)]\<rparr>"
      unfolding x'_def transpose_var_long[OF False] sh axes_def ..
    have p: "prod_list shp' = prod_list (shape x)"
      unfolding shp'_def
      using prod_list_permuted[OF n dd s, of "dim_size x"] shape_by_dim_size[OF wf] by simp
    have 1: "dims x' = nd" by (simp add: x')
    have 2: "wf_variable x'"
      by (simp add: wf_variable_def x' n shp'_def lv p[unfolded shp'_def])
    have 3: "dim_size x' d = dim_size x d" if d: "d \<in> set (dims x)"
    proof -
      from d s have dn: "d \<in> set nd" by simp
      have "dim_size x' d = shp' ! index_of nd d" by (simp add: dim_size_def x')
      also have "\<dots> = dim_size x (nd ! index_of nd d)"
        unfolding shp'_def using index_of_less[OF dn] by simp
      also have "\<dots> = dim_size x d" by (simp add: nth_index_of[OF dn])
      finally show "dim_size x' d = dim_size x d" .
    qed
    have 4: "cell_at x' a = cell_at x a" if a: "\<forall>d \<in> set (dims x). a d < dim_size x d"
    proof -
      define k where "k = ravel shp' (map a nd)"
      from a s have la: "list_all2 (\<lambda>i n. i < n) (map a nd) shp'"
        unfolding shp'_def by (simp add: list_all2_map1 list_all2_map2 list_all2_same)
      from ravel_less[OF la] have kl: "k < length (vals x)" by (simp add: k_def lv p)
      have un: "unravel shp' k = map a nd" unfolding k_def by (rule unravel_ravel[OF la])
      have idx: "map (\<lambda>b. unravel shp' k ! index_of axes b) [0 ..< length (shape x)] =
                 map a (dims x)"
      proof (rule nth_equalityI)
        show "length (map (\<lambda>b. unravel shp' k ! index_of axes b) [0 ..< length (shape x)]) =
              length (map a (dims x))"
          by (simp add: ls)
      next
        fix b assume "b < length (map (\<lambda>b. unravel shp' k ! index_of axes b) [0 ..< length (shape x)])"
        then have b: "b < length (dims x)" by (simp add: ls)
        from permuted_index[OF dd n s b, of a] b
        show "map (\<lambda>b. unravel shp' k ! index_of axes b) [0 ..< length (shape x)] ! b =
              map a (dims x) ! b"
          by (simp add: un axes_def ls)
      qed
      have "cell_at x' a = vals x' ! k" by (simp add: cell_at_def x' k_def)
      also have "\<dots> = vals x ! ravel (shape x) (map a (dims x))"
        using kl by (simp add: x' idx)
      finally show "cell_at x' a = cell_at x a" by (simp add: cell_at_def)
    qed
    from 1 2 3 4 show ?thesis by blast
  qed
  then show "dims x' = nd" and "wf_variable x'"
    and "d \<in> set (dims x) \<Longrightarrow> dim_size x' d = dim_size x d"
    and "\<forall>d \<in> set (dims x). a d < dim_size x d \<Longrightarrow> cell_at x' a = cell_at x a"
    by blast+
qed

lemma transpose_ds_var:
  assumes "transpose_ds order ds = Inr ds'" and "(n, x') \<in> set (data_vars ds')"
  obtains x where "(n, x) \<in> set (data_vars ds)" "set (dims x) \<subseteq> set order"
    "x' = transpose_var (filter (\<lambda>d. d \<in> set (dims x)) order) x"
proof -
  from assms(2) obtain x where x: "(n, x) \<in> set (data_vars ds)"
    and x': "x' = transpose_var (filter (\<lambda>d. d \<in> set (dims x)) order) x"
    unfolding transpose_ds_Inr(2)[OF assms(1)] by auto
  from dims_subset_ds_dims[OF x] have "set (dims x) \<subseteq> set order"
    by (simp add: transpose_ds_Inr(1)[OF assms(1)])
  with x show thesis using x' by (rule that)
qed

lemma transpose_ds_names: 
  assumes "transpose_ds order ds = Inr ds'"
  shows "ds_names ds' = ds_names ds"
  by (simp add: ds_names_def transpose_ds_Inr(2,3)[OF assms] o_def case_prod_unfold)

lemma same_dims_names:
  assumes "map (\<lambda>(n, y). (n, dims y, shape y)) (data_vars a) =
           map (\<lambda>(n, y). (n, dims y, shape y)) (data_vars b)"
    and "coords a = coords b"
  shows "ds_names a = ds_names b"
  by (simp only: ds_names_var_dims assms)

lemma canonical_dims:
  assumes "transpose_ds [''time'', ''lat'', ''lon''] ds = Inr ds'"
    and "(n, x') \<in> set (data_vars ds')"
  shows "set (dims x') \<subseteq> {''time'', ''lat'', ''lon''}"
    and "set (dims x') = {''time'', ''lat'', ''lon''} \<Longrightarrow> dims x' = [''time'', ''lat'', ''lon'']"
    and "distinct (dims x') \<Longrightarrow>
           dims x' = filter (\<lambda>d. d \<in> set (dims x')) [''time'', ''lat'', ''lon'']"
proof -
  from assms obtain x where x: "set (dims x) \<subseteq> set [''time'', ''lat'', ''lon'']"
    and x': "x' = transpose_var (filter (\<lambda>d. d \<in> set (dims x)) [''time'', ''lat'', ''lon'']) x"
    by (rule transpose_ds_var)
  note t = transposed_dims[OF x, folded x']
  from t(1) x show "set (dims x') \<subseteq> {''time'', ''lat'', ''lon''}" by simp
  { assume s: "set (dims x') = {''time'', ''lat'', ''lon''}"
    then have "card (set (dims x)) = 3" by (simp add: t(1)[symmetric])
    then have "2 \<le> card (set (dims x))" by simp
    from t(2)[OF this] have "dims x' = filter (\<lambda>d. d \<in> {''time'', ''lat'', ''lon''}) [''time'', ''lat'', ''lon'']"
      by (simp only: s)
    then show "dims x' = [''time'', ''lat'', ''lon'']" by simp }
  { assume "distinct (dims x')"
    then show "dims x' = filter (\<lambda>d. d \<in> set (dims x')) [''time'', ''lat'', ''lon'']"
      by (rule t(3)) simp }
qed

lemma rename_ds_other_var:
  assumes "rename_ds k v ds = Inr ds'" and "k \<noteq> v" and "n \<noteq> k" and "getitem ds n = Inr x"
  shows "getitem ds' n = Inr (x\<lparr>dims := map (rename_name k v) (dims x)\<rparr>)"
proof -
  from assms(4) have m: "map_of (data_vars ds) n = Some x" by (simp add: getitem_Inr_iff)
  then have "n \<in> set (ds_names ds)"
    by (auto simp: ds_names_def dest: map_of_SomeD intro: rev_image_eqI)
  with rename_ds_Inr(1)[OF assms(1,2)] have nv: "n \<noteq> v" by auto
  have "map_of (map (\<lambda>(m, y). (rename_name k v m, f y)) al) n = map_option f (map_of al n)"
    for f :: "variable \<Rightarrow> variable" and al
    using nv assms(3) by (induction al) (auto simp: rename_name_def)
  with m show ?thesis
    by (simp add: getitem_Inr_iff rename_ds_Inr(2)[OF assms(1,2)])
qed

lemma enforce_other_var:
  assumes "enforce ds = Inr ds'" and "n \<noteq> ''tmmn''" and "n \<noteq> ''tmmx''"
  shows "getitem ds' n = getitem ds n"
proof -
  from assms(1) obtain vn vx where
    d: "ds' = setitem (setitem ds ''tmmn''
             (vn\<lparr>vals := mask_set (vals vn) (swap_mask (vals vn) (vals vx))
                                 (mask_get (vals vx) (swap_mask (vals vn) (vals vx)))\<rparr>))
             ''tmmx''
             (vx\<lparr>vals := mask_set (vals vx) (swap_mask (vals vn) (vals vx))
                                 (mask_get (vals vn) (swap_mask (vals vn) (vals vx)))\<rparr>)"
    by (rule enforce_Inr)
  show ?thesis unfolding d using assms(2,3) by (simp add: getitem_setitem)
qed

lemma build_dataset_stages:
  assumes "fetch_loop (open_dataset w) varnames [] = Inr dlist"
    and "xr_merge dlist = Inr merged"
    and "rename_ds ''day'' ''time'' merged = Inr m1"
    and "normalize w m1 = Inr m3"
    and "transpose_ds [''time'', ''lat'', ''lon''] m3 = Inr m4"
    and "enforce m4 = Inr ds"
  shows "build_dataset w = Inr ds"
  using assms by (simp add: build_dataset_def fetch_and_merge_def bindE_def)

lemma run_model_stages:
  assumes "build_dataset w = Inr ds"
    and "bindE (window cfg ds) (window_kwargs cfg) = Inr kwargs"
    and "replace_var_pythonic_config w old new kwargs files = (None, files1)"
    and "cfg_get cfg ''ECFLOW'' ''TempDir'' = Inr temp_dir"
  shows "run_model w cfg loc old new grid model files =
           stage_and_regrid w ds grid (temporary_path temp_dir model)
             (path_join loc (model @ ''.nc'')) files1"
  using assms by (simp add: run_model_def Let_def)

subsection \<open>The example, stage by stage\<close>

lemma url_eq_iff: "url a = url b \<longleftrightarrow> a = b"
  by (simp add: url_def)

lemma example_world_simps:
  "open_dataset example_world = example_remote"
  "unit_converter example_world = example_units"
  "replace_var_pythonic_config example_world = example_replace"
  "remapcon example_world = example_remapcon"
  "netcdf_write_error example_world = example_write"
  "open_dataset failing_world = example_remote"
  "unit_converter failing_world = example_units"
  "replace_var_pythonic_config failing_world = example_replace"
  "remapcon failing_world = failing_remapcon"
  "netcdf_write_error failing_world = example_write"
  by (simp_all add: example_world_def failing_world_def)

lemma example_open:
  "example_remote (url ''tmmx'') =
     Inr (example_series ''air_temperature'' ''K'' [278.15, - 32767, 290, 300])"
  "example_remote (url ''tmmn'') =
     Inr (example_series ''air_temperature'' ''K'' [283.15, 283.15, 280, - 29800])"
  by (simp_all add: example_remote_def url_eq_iff)

lemma example_rename_series:
  "rename_ds ''air_temperature'' ''tmmx'' (example_series ''air_temperature'' u cells) =
     Inr (example_series ''tmmx'' u cells)"
  "rename_ds ''air_temperature'' ''tmmn'' (example_series ''air_temperature'' u cells) =
     Inr (example_series ''tmmn'' u cells)"
  by (simp_all add: rename_ds_def example_series_def ds_names_def ds_dims_def example_var_def
        example_coords_def rename_name_def example_dims_def)

lemma example_fetch: "fetch_loop example_remote varnames [] = Inr example_dlist"
  by (simp add: varnames_def example_remote_def url_eq_iff bindE_def example_rename_series
        example_dlist_def)

lemma example_merge: "xr_merge example_dlist = Inr example_raw"
  by (simp add: xr_merge_def bindE_def example_dlist_def example_series_def example_raw_def
        example_merged_def example_coords_def example_dims_def Let_def)

lemma example_rename: "rename_ds ''day'' ''time'' example_raw = Inr example_K"
  by (simp add: rename_ds_def example_raw_def example_K_def example_merged_def ds_names_def
        ds_dims_def example_var_def example_coords_def rename_name_def example_dims_def Let_def)

lemma example_fetch_and_merge: "fetch_and_merge example_world = Inr example_K"
  by (simp only: fetch_and_merge_def example_world_simps example_fetch example_merge
        bindE_def sum.case example_rename)

lemma example_convert:
  "example_units ''K'' ''degC'' = Inr kelvin_to_celsius"
  "example_units ''degF'' ''degC'' = Inr fahrenheit_to_celsius"
  by (simp_all add: example_units_def)

lemma example_normalize: "normalize example_world example_K = Inr example_degC"
  by (simp add: normalize_def normalize_var_def bindE_def getitem_def setitem_def
        example_K_def example_degC_def example_merged_def example_var_def dict_get_def
        new_units_def example_world_simps example_convert np_lt_scalar_def Let_def)

lemma example_F_normalize: "normalize example_world example_F = Inr example_F_degC"
  by (simp add: normalize_def normalize_var_def bindE_def getitem_def setitem_def
        example_F_def example_F_degC_def example_merged_def example_var_def dict_get_def
        new_units_def example_world_simps example_convert np_lt_scalar_def Let_def)


lemma example_transpose_var:
  "transpose_var [''time'', ''lat'', ''lon'']
     (example_var [''time'', ''lon'', ''lat''] u [a, b, c, d]) =
   example_var [''time'', ''lat'', ''lon''] u [a, c, b, d]"
  by (simp add: transpose_var_def example_var_def np_transpose_def Let_def upt_rec_numeral)

lemma example_ds_dims:
  "set (ds_dims (example_merged ''time'' False u xs ns)) = set [''time'', ''lat'', ''lon'']"
  by (auto simp: ds_dims_def example_merged_def example_var_def example_coords_def
        example_dims_def Let_def)

lemma example_filter_dims:
  "filter (\<lambda>d. d \<in> set (dims (example_var [''time'', ''lon'', ''lat''] u cells)))
          [''time'', ''lat'', ''lon''] = [''time'', ''lat'', ''lon'']"
  by (simp add: example_var_def)

lemma example_transpose:
  "transpose_ds [''time'', ''lat'', ''lon''] example_degC = Inr example_transposed"
  unfolding transpose_ds_def example_degC_def example_ds_dims example_transposed_def
  by (simp add: example_merged_def example_filter_dims example_transpose_var example_dims_def
        Let_def del: set_simps filter.simps)

lemma example_enforce: "enforce example_transposed = Inr example_enforced"
  by (simp add: enforce_def bindE_def getitem_def setitem_def example_transposed_def
        example_enforced_def example_merged_def Let_def
        example_var_def swap_mask_def np_and_def np_gt_def np_ne_scalar_def)

lemma example_nan_enforce: "enforce example_nan_degC = Inr example_nan_degC"
  by (simp add: enforce_def bindE_def getitem_def setitem_def example_nan_degC_def
        example_merged_def Let_def
        example_var_def swap_mask_def np_and_def np_gt_def np_ne_scalar_def)

lemma example_build_dataset: "build_dataset example_world = Inr example_enforced"
  by (simp only: build_dataset_def example_fetch_and_merge bindE_def sum.case
        example_normalize example_transpose example_enforce)

lemma example_getitem:
  "getitem (example_merged t tr u xs ns) ''tmmx'' = Inr (example_var (example_dims t tr) u xs)"
  "getitem (example_merged t tr u xs ns) ''tmmn'' = Inr (example_var (example_dims t tr) u ns)"
  by (simp_all add: getitem_def example_merged_def Let_def)

lemma example_series_getitem:
  "getitem (example_series name u cells) name =
     Inr (example_var [''day'', ''lon'', ''lat''] u (map Num cells))"
  by (simp add: getitem_def example_series_def example_dims_def)

lemma example_var_simps:
  "dims (example_var ds u cells) = ds" "shape (example_var ds u cells) = [1, 2, 2]"
  "vals (example_var ds u cells) = cells"
  "dict_get (attrs (example_var ds u cells)) ''units'' = Inr u"
  by (simp_all add: example_var_def dict_get_def)

lemma example_time_axis:
  "map_of (coords example_enforced) ''time'' = Some (TimeAxis [example_end_date])"
  "map_of (coords example_raw) ''day'' = Some (TimeAxis [example_end_date])"
  by (simp_all add: example_enforced_def example_raw_def example_merged_def example_coords_def
        example_end_date_def Let_def)

lemma example_cfg:
  "cfg_get example_config ''MONITOR'' ''End_Date'' = Inr ''2024-01-10''"
  "cfg_get example_config ''MONITOR'' ''Start_Date'' = Inr ''2023-10-13''"
  "cfg_get example_config ''MONITOR'' ''vic_save_state'' = Inr ''2024-01-11''"
  "cfg_get example_config ''MED_FCST'' ''Met_Loc'' = Inr ''/data/forecast''"
  "cfg_get example_config ''ECFLOW'' ''old_Config'' = Inr ''/cfg/old.cfg''"
  "cfg_get example_config ''ECFLOW'' ''new_Config'' = Inr ''/cfg/new.cfg''"
  "cfg_get example_config ''ECFLOW'' ''TempDir'' = Inr ''/scratch/tmp''"
  "cfg_get example_config ''DOMAIN'' ''GridFile'' = Inr ''/data/grid.nc''"
  "cfg_get year_end_config ''MONITOR'' ''End_Date'' = Inr ''2023-12-31''"
  by (simp_all add: cfg_get_def dict_get_def bindE_def example_config_def year_end_config_def)

lemma example_add_one_day:
  "add_one_day \<lparr>year = 2024, month = 1, day = 10, ns_of_day = 0\<rparr> =
     \<lparr>year = 2024, month = 1, day = 11, ns_of_day = 0\<rparr>"
  "add_one_day \<lparr>year = 2024, month = 4, day = 9, ns_of_day = 0\<rparr> =
     \<lparr>year = 2024, month = 4, day = 10, ns_of_day = 0\<rparr>"
  "add_one_day \<lparr>year = 2023, month = 12, day = 31, ns_of_day = 0\<rparr> =
     \<lparr>year = 2024, month = 1, day = 1, ns_of_day = 0\<rparr>"
  "add_one_day \<lparr>year = 2024, month = 2, day = 28, ns_of_day = 0\<rparr> =
     \<lparr>year = 2024, month = 2, day = 29, ns_of_day = 0\<rparr>"
  by (simp_all add: add_one_day_def days_in_month_def is_leap_def)

lemma example_year_bounds:
  "year (add_one_day \<lparr>year = 2024, month = 1, day = 10, ns_of_day = 0\<rparr>) \<le> 9999"
  "year (add_one_day \<lparr>year = 2023, month = 12, day = 31, ns_of_day = 0\<rparr>) \<le> 9999"
  "timestamp_le (add_one_day \<lparr>year = 2024, month = 4, day = 9, ns_of_day = 0\<rparr>) timestamp_max"
  "timestamp_le (add_one_day \<lparr>year = 2024, month = 2, day = 28, ns_of_day = 0\<rparr>) timestamp_max"
  unfolding example_add_one_day by (simp_all add: timestamp_le_def timestamp_max_def)

lemma last_single: "last [t] = t"
  by simp

lemma example_window:
  "window example_config example_enforced = Inr (''2024-01-11'', ''2024-04-09'', ''2024-04-10'')"
proof -
  have "window example_config example_enforced =
      Inr (strftime (add_one_day \<lparr>year = 2024, month = 1, day = 10, ns_of_day = 0\<rparr>),
           strftime (last [example_end_date]), strftime (add_one_day (last [example_end_date])))"
    by (rule window_Inr[OF example_time_axis(1) _ example_cfg(1) strptime_example(1)
          example_year_bounds(1)])
       (simp_all only: last_single example_end_date_def example_year_bounds, simp)
  also have "\<dots> = Inr (''2024-01-11'', ''2024-04-09'', ''2024-04-10'')"
    by (simp only: last_single example_end_date_def example_add_one_day strftime_example)
  finally show ?thesis .
qed

lemma rollover_window:
  "window year_end_config leap_day_ds = Inr (''2024-01-01'', ''2024-02-28'', ''2024-02-29'')"
proof -
  let ?t = "\<lparr>year = 2024, month = 2, day = 28, ns_of_day = 0\<rparr>"
  have c: "map_of (coords leap_day_ds) ''time'' = Some (TimeAxis [?t])"
    by (simp add: leap_day_ds_def)
  have "window year_end_config leap_day_ds =
      Inr (strftime (add_one_day \<lparr>year = 2023, month = 12, day = 31, ns_of_day = 0\<rparr>),
           strftime (last [?t]), strftime (add_one_day (last [?t])))"
    by (rule window_Inr[OF c _ example_cfg(9) strptime_example(2) example_year_bounds(2)])
       (simp_all only: last_single example_year_bounds, simp)
  also have "\<dots> = Inr (''2024-01-01'', ''2024-02-28'', ''2024-02-29'')"
    by (simp only: last_single example_add_one_day strftime_example)
  finally show ?thesis .
qed

lemma example_paths:
  "path_join ''/data/forecast'' (''CFSv2'' @ ''.nc'') = ''/data/forecast/CFSv2.nc''"
  "temporary_path ''/scratch/tmp'' ''CFSv2'' = ''/scratch/tmp/med_temp_CFSv2''"
  by (simp_all add: path_join_def temporary_path_def)

lemma example_regrid_step:
  "regrid_step example_world ''/data/grid.nc'' ''/scratch/tmp/med_temp_CFSv2''
     ''/data/forecast/CFSv2.nc'' (insert ''/cfg/new.cfg'' {}) =
   (None, {''/cfg/new.cfg'', ''/data/forecast/CFSv2.nc''})"
  by (auto simp: regrid_step_def example_world_simps example_remapcon_def to_netcdf_def
        os_remove_def)

lemma failing_regrid_step:
  "regrid_step failing_world ''/data/grid.nc'' ''/scratch/tmp/med_temp_CFSv2''
     ''/data/forecast/CFSv2.nc'' (insert ''/cfg/new.cfg'' {}) =
   (Some (CDOException ''remapcon failed''),
    {''/cfg/new.cfg'', ''/scratch/tmp/med_temp_CFSv2''})"
  by (auto simp: regrid_step_def example_world_simps failing_remapcon_def to_netcdf_def)

lemma example_stage_and_regrid:
  "stage_and_regrid example_world ds grid temporary outfile files =
     regrid_step example_world grid temporary outfile files"
  "stage_and_regrid failing_world ds grid temporary outfile files =
     regrid_step failing_world grid temporary outfile files"
  by (simp_all add: stage_and_regrid_def example_world_simps example_write_def)

lemma failing_build_dataset: "build_dataset failing_world = build_dataset example_world"
  by (simp add: build_dataset_def fetch_and_merge_def normalize_def example_world_simps)

lemma example_kwargs:
  "bindE (window example_config example_enforced) (window_kwargs example_config) =
     Inr [(''START_DATE'', PyStr ''2023-10-13''), (''END_DATE'', PyStr ''2024-01-10''),
          (''VIC_SAVE_STATE'', PyStr ''2024-01-11''),
          (''MED_START_DATE'', PyStr ''2024-01-11''),
          (''MED_END_DATE'', PyStr ''2024-04-09''),
          (''MED_VIC_SAVE_STATE'', PyStr ''2024-04-10''),
          (''SEAS_START_DATE'', PyInt (- 9999)), (''SEAS_END_DATE'', PyInt (- 9999)),
          (''SEAS_VIC_SAVE_STATE'', PyInt (- 9999))]"
  by (simp only: example_window window_kwargs_def bindE_def sum.case prod.case example_cfg)

lemma example_replace_ok:
  "replace_var_pythonic_config example_world ''/cfg/old.cfg'' ''/cfg/new.cfg'' kwargs {} =
     (None, {''/cfg/new.cfg''})"
  "replace_var_pythonic_config failing_world ''/cfg/old.cfg'' ''/cfg/new.cfg'' kwargs {} =
     (None, {''/cfg/new.cfg''})"
  by (simp_all add: example_world_simps example_replace_def)

lemma example_run_model:
  "run_model example_world example_config ''/data/forecast'' ''/cfg/old.cfg'' ''/cfg/new.cfg''
     ''/data/grid.nc'' ''CFSv2'' {} =
   (None, {''/cfg/new.cfg'', ''/data/forecast/CFSv2.nc''})"
  by (simp only: run_model_stages[OF example_build_dataset example_kwargs example_replace_ok(1)
          example_cfg(7)] example_stage_and_regrid example_paths example_regrid_step)

lemma failing_run_model:
  "run_model failing_world example_config ''/data/forecast'' ''/cfg/old.cfg'' ''/cfg/new.cfg''
     ''/data/grid.nc'' ''CFSv2'' {} =
   (Some (CDOException ''remapcon failed''),
    {''/cfg/new.cfg'', ''/scratch/tmp/med_temp_CFSv2''})"
  by (simp only: run_model_stages[OF example_build_dataset[folded failing_build_dataset]
          example_kwargs example_replace_ok(2) example_cfg(7)]
        example_stage_and_regrid example_paths failing_regrid_step)

lemma example_main:
  "main example_world example_config {} =
     (None, {''/cfg/new.cfg'', ''/data/forecast/CFSv2.nc''})"
  by (simp only: main_def example_cfg bindE_def sum.case prod.case modelnames_def
        models_loop.simps example_run_model option.case)

lemma failing_main:
  "main failing_world example_config {} =
     (Some (CDOException ''remapcon failed''),
      {''/cfg/new.cfg'', ''/scratch/tmp/med_temp_CFSv2''})"
  by (simp only: main_def example_cfg bindE_def sum.case prod.case modelnames_def
        models_loop.simps failing_run_model option.case)

lemma example_temperatures:
  "getitem example_raw ''tmmx'' =
     Inr (example_var [''day'', ''lon'', ''lat''] ''K''
            [Num 278.15, Num (- 32767), Num 290, Num 300])"
  "getitem example_raw ''tmmn'' =
     Inr (example_var [''day'', ''lon'', ''lat''] ''K''
            [Num 283.15, Num 283.15, Num 280, Num (- 29800)])"
  "getitem example_K ''tmmx'' =
     Inr (example_var [''time'', ''lon'', ''lat''] ''K''
            [Num 278.15, Num (- 32767), Num 290, Num 300])"
  "getitem example_K ''tmmn'' =
     Inr (example_var [''time'', ''lon'', ''lat''] ''K''
            [Num 283.15, Num 283.15, Num 280, Num (- 29800)])"
  "getitem example_degC ''tmmx'' =
     Inr (example_var [''time'', ''lon'', ''lat''] ''degC''
            [Num 5, Num (- 32767), Num 16.85, Num 26.85])"
  "getitem example_degC ''tmmn'' =
     Inr (example_var [''time'', ''lon'', ''lat''] ''degC''
            [Num 10, Num 10, Num 6.85, Num (- 32767)])"
  "getitem example_transposed ''tmmx'' =
     Inr (example_var [''time'', ''lat'', ''lon''] ''degC''
            [Num 5, Num 16.85, Num (- 32767), Num 26.85])"
  "getitem example_transposed ''tmmn'' =
     Inr (example_var [''time'', ''lat'', ''lon''] ''degC''
            [Num 10, Num 6.85, Num 10, Num (- 32767)])"
  "getitem example_enforced ''tmmx'' =
     Inr (example_var [''time'', ''lat'', ''lon''] ''degC''
            [Num 10, Num 16.85, Num (- 32767), Num 26.85])"
  "getitem example_enforced ''tmmn'' =
     Inr (example_var [''time'', ''lat'', ''lon''] ''degC''
            [Num 5, Num 6.85, Num 10, Num (- 32767)])"
  by (simp_all add: example_raw_def example_K_def example_degC_def example_transposed_def
        example_enforced_def example_getitem example_dims_def)

lemma example_other_temperatures:
  "getitem example_F ''tmmx'' =
     Inr (example_var [''time'', ''lon'', ''lat''] ''degF''
            [Num 50, Num (- 32767), Num 68, Num 77])"
  "getitem example_F_degC ''tmmx'' =
     Inr (example_var [''time'', ''lon'', ''lat''] ''degC''
            [Num 10, Num (- 163995 / 9), Num 20, Num 25])"
  "getitem example_nan_K ''tmmx'' =
     Inr (example_var [''time'', ''lat'', ''lon''] ''K'' [NaN, Num 290, Num 290, Num 300])"
  "getitem example_nan_degC ''tmmx'' =
     Inr (example_var [''time'', ''lat'', ''lon''] ''degC''
            [NaN, Num 16.85, Num 16.85, Num 26.85])"
  "getitem example_nan_degC ''tmmn'' =
     Inr (example_var [''time'', ''lat'', ''lon''] ''degC''
            [Num 10, Num 6.85, Num 6.85, Num 11.85])"
  by (simp_all add: example_F_def example_F_degC_def example_nan_K_def example_nan_degC_def
        example_getitem example_dims_def)

lemma example_air_temperature:
  "getitem (example_series ''air_temperature'' ''K'' [278.15, - 32767, 290, 300])
     ''air_temperature'' =
     Inr (example_var [''day'', ''lon'', ''lat''] ''K''
            [Num 278.15, Num (- 32767), Num 290, Num 300])"
  "getitem (example_series ''air_temperature'' ''K'' [283.15, 283.15, 280, - 29800])
     ''air_temperature'' =
     Inr (example_var [''day'', ''lon'', ''lat''] ''K''
            [Num 283.15, Num 283.15, Num 280, Num (- 29800)])"
  by (simp_all add: example_series_getitem)

lemma example_wf: "distinct ds \<Longrightarrow> length ds = 3 \<Longrightarrow> wf_variable (example_var ds u [a, b, c, d])"
  by (simp add: wf_variable_def example_var_def)

lemma upt_1_4: "[1 ..< 4] = [1, 2, 3 :: nat]"
  by code_simp

lemma days_before_2024:
  "days_before_year 2024 = 738885"
  "days_before_month 2024 1 = 0"
  "days_before_month 2024 4 = 91"
  unfolding days_before_month_def upt_1_4
  by (simp_all add: days_before_year_def days_in_month_def is_leap_def)

lemma example_ordinals:
  "toordinal \<lparr>year = 2024, month = 1, day = 10, ns_of_day = 0\<rparr> = 738895"
  "toordinal \<lparr>year = 2024, month = 1, day = 11, ns_of_day = 0\<rparr> = 738896"
  "toordinal \<lparr>year = 2024, month = 4, day = 9, ns_of_day = 0\<rparr> = 738985"
  "toordinal \<lparr>year = 2024, month = 4, day = 10, ns_of_day = 0\<rparr> = 738986"
  by (simp_all add: toordinal_def days_before_2024 days_before_month_1)

lemma example_valid_dates:
  "valid_date \<lparr>year = 2024, month = 1, day = 10, ns_of_day = 0\<rparr>"
  "valid_date \<lparr>year = 2024, month = 4, day = 9, ns_of_day = 0\<rparr>"
  by (simp_all add: valid_date_def days_in_month_def)

section \<open>The claims of the specification\<close>

text \<open>
  Claim C1 (staging file).  The script stages the dataset with \<open>to_netcdf\<close>, calls
  \<open>cdo.remapcon\<close> and then \<open>os.remove\<close>, with no handler around the call.  So the staging file
  exists while the regridding engine runs; the step behaves as the case distinction below says;
  and when the engine returns without an exception the staging file is absent afterwards,
  whatever the engine did to the file system.  When the engine raises, the exception leaves the
  step at once and the file system is the one the engine left.
\<close>

theorem regrid_step_removes_staging_file:
  assumes "remapcon w grid_file temporary outfile (to_netcdf temporary files) = (r, files2)"
  shows "temporary \<in> to_netcdf temporary files \<and>
         regrid_step w grid_file temporary outfile files =
           (case r of None \<Rightarrow> os_remove temporary files2 | Some e \<Rightarrow> (Some e, files2)) \<and>
         (r = None \<longrightarrow> temporary \<notin> snd (regrid_step w grid_file temporary outfile files))"
  using assms
  by (cases r) (simp_all add: regrid_step_cases os_remove_absent to_netcdf_def)

theorem regrid_step_removes_staging_file_witness:
  "remapcon example_world ''/data/grid.nc'' ''/scratch/tmp/med_temp_CFSv2''
     ''/data/forecast/CFSv2.nc''
     (to_netcdf ''/scratch/tmp/med_temp_CFSv2'' (insert ''/cfg/new.cfg'' {})) =
     (None, {''/cfg/new.cfg'', ''/scratch/tmp/med_temp_CFSv2'', ''/data/forecast/CFSv2.nc''}) \<and>
   ''/scratch/tmp/med_temp_CFSv2'' \<in>
     to_netcdf ''/scratch/tmp/med_temp_CFSv2'' (insert ''/cfg/new.cfg'' {}) \<and>
   ''/scratch/tmp/med_temp_CFSv2'' \<notin>
     snd (regrid_step example_world ''/data/grid.nc'' ''/scratch/tmp/med_temp_CFSv2''
            ''/data/forecast/CFSv2.nc'' (insert ''/cfg/new.cfg'' {}))"
proof -
  have h: "remapcon example_world ''/data/grid.nc'' ''/scratch/tmp/med_temp_CFSv2''
     ''/data/forecast/CFSv2.nc''
     (to_netcdf ''/scratch/tmp/med_temp_CFSv2'' (insert ''/cfg/new.cfg'' {})) =
     (None, {''/cfg/new.cfg'', ''/scratch/tmp/med_temp_CFSv2'', ''/data/forecast/CFSv2.nc''})"
    by (auto simp: example_world_simps example_remapcon_def to_netcdf_def)
  from regrid_step_removes_staging_file[OF h] h show ?thesis by blast
qed

text \<open>
  Claim C1 as the specification states it also promises the removal when regridding raises.
  On the example, with a regridding engine that raises and writes nothing, the run ends with the
  exception and the staging file is still there.
\<close>

theorem staging_file_left_when_regrid_raises:
  "fst (main failing_world example_config {}) = Some (CDOException ''remapcon failed'') \<and>
   temporary_path ''/scratch/tmp'' ''CFSv2'' \<in> snd (main failing_world example_config {})"
  by (simp add: failing_main example_paths)

text \<open>
  Claim C2 (ordering invariant).  After the swap, in every cell whose maximum is not the fill
  value \<open>-32767\<close> and where neither the minimum nor the maximum is NaN, the minimum is at most
  the maximum.  The theorem covers both readings of "the maximum": the value after the step and
  the value before it.
\<close>

theorem enforce_min_le_max:
  assumes "enforce ds = Inr ds'"
    and "getitem ds ''tmmx'' = Inr vx"
    and "getitem ds' ''tmmn'' = Inr vn'" and "getitem ds' ''tmmx'' = Inr vx'"
    and "i < length (vals vn')" and "i < length (vals vx')"
    and "vals vx' ! i \<noteq> Num (- 32767) \<or> vals vx ! i \<noteq> Num (- 32767)"
    and "vals vn' ! i \<noteq> NaN" and "vals vx' ! i \<noteq> NaN"
  shows "cell_le (vals vn' ! i) (vals vx' ! i)"
proof -
  from assms(1) obtain vn0 vx0 where
    g: "getitem ds ''tmmn'' = Inr vn0" "getitem ds ''tmmx'' = Inr vx0"
    and n: "getitem ds' ''tmmn'' =
       Inr (vn0\<lparr>vals := mask_set (vals vn0) (swap_mask (vals vn0) (vals vx0))
                                 (mask_get (vals vx0) (swap_mask (vals vn0) (vals vx0)))\<rparr>)"
    and x: "getitem ds' ''tmmx'' =
       Inr (vx0\<lparr>vals := mask_set (vals vx0) (swap_mask (vals vn0) (vals vx0))
                                 (mask_get (vals vn0) (swap_mask (vals vn0) (vals vx0)))\<rparr>)"
    by (rule enforce_Inr)
  from g assms(2) have vx: "vx0 = vx" by simp
  from n assms(3) have vn': "vals vn' = mask_set (vals vn0) (swap_mask (vals vn0) (vals vx))
                                 (mask_get (vals vx) (swap_mask (vals vn0) (vals vx)))"
    by (auto simp: vx)
  from x assms(4) have vx': "vals vx' = mask_set (vals vx) (swap_mask (vals vn0) (vals vx))
                                 (mask_get (vals vn0) (swap_mask (vals vn0) (vals vx)))"
    by (auto simp: vx)
  from assms(5,6) have l: "i < length (vals vn0)" "i < length (vals vx)"
    by (simp_all add: vn' vx' length_mask_set)
  from assms(7-9) show ?thesis
    unfolding vn' vx' using l
    by (auto simp: swapped_min_nth swapped_max_nth cell_less_le not_cell_less
             split: if_splits)
qed

theorem enforce_min_le_max_witness:
  "enforce example_transposed = Inr example_enforced \<and>
   getitem example_transposed ''tmmx'' =
     Inr (example_var [''time'', ''lat'', ''lon''] ''degC''
            [Num 5, Num 16.85, Num (- 32767), Num 26.85]) \<and>
   getitem example_enforced ''tmmn'' =
     Inr (example_var [''time'', ''lat'', ''lon''] ''degC''
            [Num 5, Num 6.85, Num 10, Num (- 32767)]) \<and>
   getitem example_enforced ''tmmx'' =
     Inr (example_var [''time'', ''lat'', ''lon''] ''degC''
            [Num 10, Num 16.85, Num (- 32767), Num 26.85]) \<and>
   vals (example_var [''time'', ''lat'', ''lon''] ''degC''
           [Num 10, Num 16.85, Num (- 32767), Num 26.85]) ! 0 \<noteq> Num (- 32767) \<and>
   vals (example_var [''time'', ''lat'', ''lon''] ''degC''
           [Num 5, Num 6.85, Num 10, Num (- 32767)]) ! 0 \<noteq> NaN \<and>
   vals (example_var [''time'', ''lat'', ''lon''] ''degC''
           [Num 10, Num 16.85, Num (- 32767), Num 26.85]) ! 0 \<noteq> NaN \<and>
   cell_le
     (vals (example_var [''time'', ''lat'', ''lon''] ''degC''
              [Num 5, Num 6.85, Num 10, Num (- 32767)]) ! 0)
     (vals (example_var [''time'', ''lat'', ''lon''] ''degC''
              [Num 10, Num 16.85, Num (- 32767), Num 26.85]) ! 0)"
proof -
  let ?x = "example_var [''time'', ''lat'', ''lon''] ''degC''
              [Num 5, Num 16.85, Num (- 32767), Num 26.85]"
  let ?n' = "example_var [''time'', ''lat'', ''lon''] ''degC''
               [Num 5, Num 6.85, Num 10, Num (- 32767)]"
  let ?x' = "example_var [''time'', ''lat'', ''lon''] ''degC''
               [Num 10, Num 16.85, Num (- 32767), Num 26.85]"
  note g = example_temperatures(7,10,9)
  have l: "0 < length (vals ?n')" "0 < length (vals ?x')"
    by (simp_all add: example_var_simps)
  have s': "vals ?x' ! 0 \<noteq> Num (- 32767)"
    by (simp add: example_var_simps)
  then have s: "vals ?x' ! 0 \<noteq> Num (- 32767) \<or> vals ?x ! 0 \<noteq> Num (- 32767)" ..
  have nn: "vals ?n' ! 0 \<noteq> NaN" "vals ?x' ! 0 \<noteq> NaN"
    by (simp_all add: example_var_simps)
  from enforce_min_le_max[OF example_enforce g l s nn] example_enforce g s' nn show ?thesis by blast
qed

text \<open>
  Claim C2 as the specification states it excepts only the cells whose maximum is the fill
  value.  The mask of the script tests \<open>tmin > tmax\<close>, which is false when a side is NaN, so a
  cell with a NaN maximum is not swapped: on the grid below the first cell keeps the minimum
  \<open>10\<close> beside a maximum that is NaN, which is not the fill value, and \<open>10 <= NaN\<close> is false.
\<close>

theorem nan_maximum_not_ordered:
  "enforce example_nan_degC = Inr example_nan_degC \<and>
   getitem example_nan_degC ''tmmn'' =
     Inr (example_var [''time'', ''lat'', ''lon''] ''degC''
            [Num 10, Num 6.85, Num 6.85, Num 11.85]) \<and>
   getitem example_nan_degC ''tmmx'' =
     Inr (example_var [''time'', ''lat'', ''lon''] ''degC''
            [NaN, Num 16.85, Num 16.85, Num 26.85]) \<and>
   vals (example_var [''time'', ''lat'', ''lon''] ''degC''
           [NaN, Num 16.85, Num 16.85, Num 26.85]) ! 0 \<noteq> Num (- 32767) \<and>
   \<not> cell_le
       (vals (example_var [''time'', ''lat'', ''lon''] ''degC''
                [Num 10, Num 6.85, Num 6.85, Num 11.85]) ! 0)
       (vals (example_var [''time'', ''lat'', ''lon''] ''degC''
                [NaN, Num 16.85, Num 16.85, Num 26.85]) ! 0)"
proof -
  have "vals (example_var [''time'', ''lat'', ''lon''] ''degC''
           [NaN, Num 16.85, Num 16.85, Num 26.85]) ! 0 \<noteq> Num (- 32767)"
    "\<not> cell_le
       (vals (example_var [''time'', ''lat'', ''lon''] ''degC''
                [Num 10, Num 6.85, Num 6.85, Num 11.85]) ! 0)
       (vals (example_var [''time'', ''lat'', ''lon''] ''degC''
                [NaN, Num 16.85, Num 16.85, Num 26.85]) ! 0)"
    by (simp_all add: example_var_simps)
  with example_nan_enforce example_other_temperatures(5,4) show ?thesis by blast
qed

text \<open>
  Claim C3 (fill value after normalization).  The claim says that a cell of \<open>tmmn\<close> or \<open>tmmx\<close>
  that holds \<open>-32767\<close> before the conversion holds exactly \<open>-32767\<close> after the repair, and the
  script announces the repair with the comment "Fix _FillValue after unit conversion".  The
  repair resets the values below the fixed threshold \<open>-30000\<close>, and the source unit is read from
  the data.  The run below is the normalization of a grid whose temperatures are recorded in
  degrees Fahrenheit: the converter sends \<open>-32767\<close> to \<open>-163995 / 9\<close> (about \<open>-18221.7\<close>),
  which is above the threshold, so the repair leaves it and the cell no longer holds the fill
  value.  (From Kelvin the fill value becomes \<open>-33040.15\<close> and is reset; lemma
  \<open>normalize_fill_value_cell\<close> gives the value of such a cell for any converter.)
\<close>

theorem fahrenheit_fill_value_not_restored:
  "getitem example_F ''tmmx'' =
     Inr (example_var [''time'', ''lon'', ''lat''] ''degF''
            [Num 50, Num (- 32767), Num 68, Num 77]) \<and>
   vals (example_var [''time'', ''lon'', ''lat''] ''degF''
           [Num 50, Num (- 32767), Num 68, Num 77]) ! 1 = Num (- 32767) \<and>
   unit_converter example_world ''degF'' ''degC'' = Inr fahrenheit_to_celsius \<and>
   normalize example_world example_F = Inr example_F_degC \<and>
   getitem example_F_degC ''tmmx'' =
     Inr (example_var [''time'', ''lon'', ''lat''] ''degC''
            [Num 10, Num (- 163995 / 9), Num 20, Num 25]) \<and>
   vals (example_var [''time'', ''lon'', ''lat''] ''degC''
           [Num 10, Num (- 163995 / 9), Num 20, Num 25]) ! 1 =
     fahrenheit_to_celsius (Num (- 32767)) \<and>
   vals (example_var [''time'', ''lon'', ''lat''] ''degC''
           [Num 10, Num (- 163995 / 9), Num 20, Num 25]) ! 1 \<noteq> Num (- 32767)"
proof -
  have "unit_converter example_world ''degF'' ''degC'' = Inr fahrenheit_to_celsius"
    by (simp only: example_world_simps example_convert)
  moreover have
    "vals (example_var [''time'', ''lon'', ''lat''] ''degF''
             [Num 50, Num (- 32767), Num 68, Num 77]) ! 1 = Num (- 32767)"
    "vals (example_var [''time'', ''lon'', ''lat''] ''degC''
             [Num 10, Num (- 163995 / 9), Num 20, Num 25]) ! 1 =
       fahrenheit_to_celsius (Num (- 32767))"
    "vals (example_var [''time'', ''lon'', ''lat''] ''degC''
             [Num 10, Num (- 163995 / 9), Num 20, Num 25]) ! 1 \<noteq> Num (- 32767)"
    by (simp_all add: example_var_simps)
  ultimately show ?thesis
    using example_F_normalize example_other_temperatures(1,2) by blast
qed

text \<open>
  Claim C4 (forecast window).  Let the configuration record as \<open>End_Date\<close> the date \<open>p\<close>, written
  as \<open>strftime\<close> writes it, and let \<open>ts\<close> be the time axis of the merged series.  Then the
  window is the triple of the day after \<open>p\<close>, the date of the last timestamp and the day after
  it, each written by \<open>strftime\<close>.  "The day after" is a date of the calendar whose day number
  (\<open>toordinal\<close>) is one more, also across the end of a month or a year.  Each of the three
  strings has ten characters and parses back (\<open>strptime\<close>) to midnight of the date it was
  written from, so it determines the date and carries no time of day.  For \<open>2024-01-10\<close> and a
  last timestamp on 2024-04-09 the triple is \<open>2024-01-11\<close>, \<open>2024-04-09\<close>, \<open>2024-04-10\<close>.  The
  hypotheses on the years are the range in which \<open>%Y\<close> writes and reads four digits (a year
  below 1000 is written without padding, see \<open>strftime_example\<close>) and the ranges of
  \<open>datetime\<close> and of \<open>Timestamp\<close>.
\<close>

theorem window_dates:
  assumes cfg: "cfg_get cfg ''MONITOR'' ''End_Date'' = Inr (strftime p)"
    and p: "valid_date p" "1000 \<le> year p" "year (add_one_day p) \<le> 9999"
    and ts: "map_of (coords ds) ''time'' = Some (TimeAxis ts)" "ts \<noteq> []"
    and l: "valid_date (last ts)" "1000 \<le> year (last ts)"
      "timestamp_le (add_one_day (last ts)) timestamp_max"
  shows "window cfg ds =
           Inr (strftime (add_one_day p), strftime (last ts), strftime (add_one_day (last ts))) \<and>
         valid_date (add_one_day p) \<and> toordinal (add_one_day p) = toordinal p + 1 \<and>
         valid_date (add_one_day (last ts)) \<and>
         toordinal (add_one_day (last ts)) = toordinal (last ts) + 1 \<and>
         strptime (strftime (add_one_day p)) = Inr ((add_one_day p)\<lparr>ns_of_day := 0\<rparr>) \<and>
         strptime (strftime (last ts)) = Inr ((last ts)\<lparr>ns_of_day := 0\<rparr>) \<and>
         strptime (strftime (add_one_day (last ts))) =
           Inr ((add_one_day (last ts))\<lparr>ns_of_day := 0\<rparr>) \<and>
         length (strftime (add_one_day p)) = 10 \<and> length (strftime (last ts)) = 10 \<and>
         length (strftime (add_one_day (last ts))) = 10 \<and>
         (year p = 2024 \<and> month p = 1 \<and> day p = 10 \<and>
          year (last ts) = 2024 \<and> month (last ts) = 4 \<and> day (last ts) = 9 \<longrightarrow>
          strftime p = ''2024-01-10'' \<and>
          window cfg ds = Inr (''2024-01-11'', ''2024-04-09'', ''2024-04-10''))"
proof -
  let ?s = "add_one_day p" and ?r = "add_one_day (last ts)"
  have w: "window cfg ds = Inr (strftime ?s, strftime (last ts), strftime ?r)"
    by (rule window_strings[OF cfg p ts l(1,3)])
  have vs: "valid_date ?s" by (rule add_one_day_valid[OF p(1,3)])
  have ry: "year ?r \<le> 9999"
    using timestamp_le_year[OF l(3)] by (simp add: timestamp_max_def)
  have vr: "valid_date ?r" by (rule add_one_day_valid[OF l(1) ry])
  have ys: "1000 \<le> year ?s" using p(2) year_add_one_day[of p] by simp
  have yr: "1000 \<le> year ?r" using l(2) year_add_one_day[of "last ts"] by simp
  have ex: "strftime p = ''2024-01-10'' \<and>
      window cfg ds = Inr (''2024-01-11'', ''2024-04-09'', ''2024-04-10'')"
    if h: "year p = 2024 \<and> month p = 1 \<and> day p = 10 \<and>
          year (last ts) = 2024 \<and> month (last ts) = 4 \<and> day (last ts) = 9"
  proof -
    have a: "strftime p = ''2024-01-10''"
    proof -
      have "strftime p = strftime \<lparr>year = 2024, month = 1, day = 10, ns_of_day = 0\<rparr>"
        by (rule strftime_cong) (use h in simp_all)
      thus ?thesis by (simp only: strftime_example)
    qed
    have b: "strftime ?s = ''2024-01-11''"
    proof -
      have "strftime ?s = strftime \<lparr>year = 2024, month = 1, day = 11, ns_of_day = 0\<rparr>"
        by (rule strftime_cong) (use h in \<open>simp_all add: add_one_day_def days_in_month_def\<close>)
      thus ?thesis by (simp only: strftime_example)
    qed
    have c: "strftime (last ts) = ''2024-04-09''"
    proof -
      have "strftime (last ts) = strftime \<lparr>year = 2024, month = 4, day = 9, ns_of_day = 0\<rparr>"
        by (rule strftime_cong) (use h in simp_all)
      thus ?thesis by (simp only: strftime_example)
    qed
    have d: "strftime ?r = ''2024-04-10''"
    proof -
      have "strftime ?r = strftime \<lparr>year = 2024, month = 4, day = 10, ns_of_day = 0\<rparr>"
        by (rule strftime_cong) (use h in \<open>simp_all add: add_one_day_def days_in_month_def\<close>)
      thus ?thesis by (simp only: strftime_example)
    qed
    show ?thesis unfolding w a b c d by simp
  qed
  show ?thesis
    using w vs vr add_one_day_ordinal[OF p(1)] add_one_day_ordinal[OF l(1)]
      strptime_strftime[OF vs ys] strptime_strftime[OF l(1,2)] strptime_strftime[OF vr yr]
      strftime_length[OF vs ys] strftime_length[OF l(1,2)] strftime_length[OF vr yr] ex
    by blast
qed

theorem window_dates_witness:
  "cfg_get example_config ''MONITOR'' ''End_Date'' = Inr (strftime example_prior_end) \<and>
   strftime example_prior_end = ''2024-01-10'' \<and>
   valid_date example_prior_end \<and>
   map_of (coords example_enforced) ''time'' = Some (TimeAxis [example_end_date]) \<and>
   valid_date (last [example_end_date]) \<and>
   window example_config example_enforced =
     Inr (''2024-01-11'', ''2024-04-09'', ''2024-04-10'') \<and>
   toordinal example_prior_end = 738895 \<and>
   toordinal (add_one_day example_prior_end) = 738896 \<and>
   toordinal (last [example_end_date]) = 738985 \<and>
   toordinal (add_one_day (last [example_end_date])) = 738986 \<and>
   strptime ''2024-01-11'' = Inr \<lparr>year = 2024, month = 1, day = 11, ns_of_day = 0\<rparr> \<and>
   window year_end_config leap_day_ds = Inr (''2024-01-01'', ''2024-02-28'', ''2024-02-29'')"
proof -
  let ?p = example_prior_end
  have s: "strftime ?p = ''2024-01-10''"
    by (simp only: example_prior_end_def strftime_example)
  have c: "cfg_get example_config ''MONITOR'' ''End_Date'' = Inr (strftime ?p)"
    by (simp only: s example_cfg)
  have e: "last [example_end_date] = example_end_date" by simp
  have a: "add_one_day ?p = \<lparr>year = 2024, month = 1, day = 11, ns_of_day = 0\<rparr>"
    by (simp only: example_prior_end_def example_add_one_day)
  have vp: "valid_date ?p" "1000 \<le> year ?p" "year (add_one_day ?p) \<le> 9999"
    unfolding a by (simp_all add: example_prior_end_def valid_date_def days_in_month_def)
  have vl: "valid_date (last [example_end_date])" "1000 \<le> year (last [example_end_date])"
    "timestamp_le (add_one_day (last [example_end_date])) timestamp_max"
    unfolding example_end_date_def last_single
    by (simp_all only: example_valid_dates example_year_bounds, simp)
  have ne: "[example_end_date] \<noteq> []" by simp
  have f: "year ?p = 2024 \<and> month ?p = 1 \<and> day ?p = 10 \<and>
      year (last [example_end_date]) = 2024 \<and> month (last [example_end_date]) = 4 \<and>
      day (last [example_end_date]) = 9"
    by (simp add: example_prior_end_def example_end_date_def)
  have o: "toordinal ?p = 738895" "toordinal (last [example_end_date]) = 738985"
    by (simp_all only: last_single example_prior_end_def example_end_date_def example_ordinals)
  note t = window_dates[OF c vp example_time_axis(1) ne vl]
  from t f have w: "window example_config example_enforced =
      Inr (''2024-01-11'', ''2024-04-09'', ''2024-04-10'')"
    by blast
  from t o have o': "toordinal (add_one_day ?p) = 738896"
    "toordinal (add_one_day (last [example_end_date])) = 738986"
    by simp_all
  from t have "strptime (strftime (add_one_day ?p)) = Inr ((add_one_day ?p)\<lparr>ns_of_day := 0\<rparr>)"
    by blast
  then have r: "strptime ''2024-01-11'' =
      Inr \<lparr>year = 2024, month = 1, day = 11, ns_of_day = 0\<rparr>"
    by (simp only: a strftime_example timestamp.update_convs)
  from c s vp(1) example_time_axis(1) vl(1) w o o' r rollover_window show ?thesis by blast
qed

text \<open>
  Claim C5 (units and converted values).  After the normalization loop the \<open>units\<close> attribute
  of \<open>tmmn\<close> and of \<open>tmmx\<close> is the unit that \<open>new_units\<close> gives (\<open>degC\<close>), the array has the
  same length, and every cell holds the converted original value if that value is at least
  \<open>-30000\<close> and \<open>-32767\<close> otherwise.
\<close>

theorem normalize_units_and_cells:
  assumes "normalize w ds = Inr ds'" and "var = ''tmmn'' \<or> var = ''tmmx''"
    and "getitem ds var = Inr x" and "dict_get (attrs x) ''units'' = Inr u"
    and "unit_converter w u ''degC'' = Inr f"
  shows "\<exists>x'. getitem ds' var = Inr x' \<and>
           dict_get (attrs x') ''units'' = dict_get new_units var \<and>
           dict_get (attrs x') ''units'' = Inr ''degC'' \<and>
           length (vals x') = length (vals x) \<and>
           (\<forall>i < length (vals x).
              vals x' ! i =
                (if cell_less (f (vals x ! i)) (Num (- 30000)) then Num (- 32767)
                 else f (vals x ! i)))"
proof -
  from assms(1,2) obtain x0 u0 f0 where
    g: "getitem ds var = Inr x0" "dict_get (attrs x0) ''units'' = Inr u0"
       "unit_converter w u0 ''degC'' = Inr f0"
    and r: "getitem ds' var =
       Inr (x0\<lparr>vals := map (\<lambda>v. if cell_less (f0 v) (Num (- 30000)) then Num (- 32767) else f0 v) (vals x0),
              attrs := AList.update ''units'' ''degC'' (attrs x0)\<rparr>)"
    by (rule normalize_Inr)
  from g assms(3-5) have e: "x0 = x" "f0 = f" by auto
  from assms(2) have nu: "dict_get new_units var = Inr ''degC''"
    by (auto simp: new_units_temperature)
  show ?thesis
    using r unfolding e by (simp add: nu dict_get_update)
qed

theorem normalize_units_and_cells_witness:
  "normalize example_world example_K = Inr example_degC \<and>
   getitem example_K ''tmmn'' =
     Inr (example_var [''time'', ''lon'', ''lat''] ''K''
            [Num 283.15, Num 283.15, Num 280, Num (- 29800)]) \<and>
   unit_converter example_world ''K'' ''degC'' = Inr kelvin_to_celsius \<and>
   getitem example_degC ''tmmn'' =
     Inr (example_var [''time'', ''lon'', ''lat''] ''degC''
            [Num 10, Num 10, Num 6.85, Num (- 32767)]) \<and>
   dict_get (attrs (example_var [''time'', ''lon'', ''lat''] ''degC''
                      [Num 10, Num 10, Num 6.85, Num (- 32767)])) ''units'' = Inr ''degC'' \<and>
   vals (example_var [''time'', ''lon'', ''lat''] ''degC''
           [Num 10, Num 10, Num 6.85, Num (- 32767)]) ! 0 =
     kelvin_to_celsius
       (vals (example_var [''time'', ''lon'', ''lat''] ''K''
                [Num 283.15, Num 283.15, Num 280, Num (- 29800)]) ! 0) \<and>
   vals (example_var [''time'', ''lon'', ''lat''] ''degC''
           [Num 10, Num 10, Num 6.85, Num (- 32767)]) ! 3 = Num (- 32767)"
proof -
  let ?x = "example_var [''time'', ''lon'', ''lat''] ''K''
              [Num 283.15, Num 283.15, Num 280, Num (- 29800)]"
  let ?x' = "example_var [''time'', ''lon'', ''lat''] ''degC''
               [Num 10, Num 10, Num 6.85, Num (- 32767)]"
  have v: "''tmmn'' = ''tmmn'' \<or> ''tmmn'' = ''tmmx''" by simp
  note g = example_temperatures(4)
  note g' = example_temperatures(6)
  have u: "dict_get (attrs ?x) ''units'' = Inr ''K''" by (rule example_var_simps)
  have c: "unit_converter example_world ''K'' ''degC'' = Inr kelvin_to_celsius"
    by (simp only: example_world_simps example_convert)
  from normalize_units_and_cells[OF example_normalize v g u c] obtain x' where
    r: "getitem example_degC ''tmmn'' = Inr x'"
       "dict_get (attrs x') ''units'' = Inr ''degC''"
       "\<forall>i < length (vals ?x). vals x' ! i =
          (if cell_less (kelvin_to_celsius (vals ?x ! i)) (Num (- 30000)) then Num (- 32767)
           else kelvin_to_celsius (vals ?x ! i))"
    by blast
  from r(1) g' have e: "x' = ?x'" by simp
  have l: "0 < length (vals ?x)" "3 < length (vals ?x)" by (simp_all add: example_var_simps)
  have k: "\<not> cell_less (kelvin_to_celsius (vals ?x ! 0)) (Num (- 30000))"
    "cell_less (kelvin_to_celsius (vals ?x ! 3)) (Num (- 30000))"
    by (simp_all add: example_var_simps)
  from r(3) l k have "vals x' ! 0 = kelvin_to_celsius (vals ?x ! 0)" "vals x' ! 3 = Num (- 32767)"
    by simp_all
  with r(2) example_normalize g g' c show ?thesis unfolding e by blast
qed

text \<open>
  Claim C5 as the specification states it excepts only the cells that held the fill value.  The
  repair tests the converted value against \<open>-30000\<close>, so it also resets a cell that held
  another value: on the example the minimum \<open>-29800\<close> (Kelvin) converts to \<open>-30073.15\<close> and the
  cell ends as \<open>-32767\<close>.
\<close>

theorem normalize_resets_cell_below_threshold:
  "normalize example_world example_K = Inr example_degC \<and>
   getitem example_K ''tmmn'' =
     Inr (example_var [''time'', ''lon'', ''lat''] ''K''
            [Num 283.15, Num 283.15, Num 280, Num (- 29800)]) \<and>
   unit_converter example_world ''K'' ''degC'' = Inr kelvin_to_celsius \<and>
   getitem example_degC ''tmmn'' =
     Inr (example_var [''time'', ''lon'', ''lat''] ''degC''
            [Num 10, Num 10, Num 6.85, Num (- 32767)]) \<and>
   vals (example_var [''time'', ''lon'', ''lat''] ''K''
           [Num 283.15, Num 283.15, Num 280, Num (- 29800)]) ! 3 \<noteq> Num (- 32767) \<and>
   vals (example_var [''time'', ''lon'', ''lat''] ''degC''
           [Num 10, Num 10, Num 6.85, Num (- 32767)]) ! 3 \<noteq>
     kelvin_to_celsius
       (vals (example_var [''time'', ''lon'', ''lat''] ''K''
                [Num 283.15, Num 283.15, Num 280, Num (- 29800)]) ! 3)"
proof -
  have "unit_converter example_world ''K'' ''degC'' = Inr kelvin_to_celsius"
    by (simp only: example_world_simps example_convert)
  moreover have
    "vals (example_var [''time'', ''lon'', ''lat''] ''K''
           [Num 283.15, Num 283.15, Num 280, Num (- 29800)]) ! 3 \<noteq> Num (- 32767)"
    "vals (example_var [''time'', ''lon'', ''lat''] ''degC''
           [Num 10, Num 10, Num 6.85, Num (- 32767)]) ! 3 \<noteq>
     kelvin_to_celsius
       (vals (example_var [''time'', ''lon'', ''lat''] ''K''
                [Num 283.15, Num 283.15, Num 280, Num (- 29800)]) ! 3)"
    by (simp_all add: example_var_simps)
  ultimately show ?thesis using example_normalize example_temperatures(4,6) by blast
qed

text \<open>
  Claim C6 (missing maximum).  In a cell where the maximum is \<open>-32767\<close> before the swap, both
  the minimum and the maximum are the same after it, whatever the minimum is.
\<close>

theorem enforce_leaves_missing_max:
  assumes "enforce ds = Inr ds'"
    and "getitem ds ''tmmn'' = Inr vn" and "getitem ds ''tmmx'' = Inr vx"
    and "i < length (vals vn)" and "i < length (vals vx)"
    and "vals vx ! i = Num (- 32767)"
  shows "\<exists>vn' vx'. getitem ds' ''tmmn'' = Inr vn' \<and> getitem ds' ''tmmx'' = Inr vx' \<and>
           vals vn' ! i = vals vn ! i \<and> vals vx' ! i = vals vx ! i"
proof -
  from assms(1) obtain vn0 vx0 where
    g: "getitem ds ''tmmn'' = Inr vn0" "getitem ds ''tmmx'' = Inr vx0"
    and n: "getitem ds' ''tmmn'' =
       Inr (vn0\<lparr>vals := mask_set (vals vn0) (swap_mask (vals vn0) (vals vx0))
                                 (mask_get (vals vx0) (swap_mask (vals vn0) (vals vx0)))\<rparr>)"
    and x: "getitem ds' ''tmmx'' =
       Inr (vx0\<lparr>vals := mask_set (vals vx0) (swap_mask (vals vn0) (vals vx0))
                                 (mask_get (vals vn0) (swap_mask (vals vn0) (vals vx0)))\<rparr>)"
    by (rule enforce_Inr)
  from g assms(2,3) have e: "vn0 = vn" "vx0 = vx" by simp_all
  show ?thesis
    using n x assms(4-6) unfolding e by (simp add: swapped_min_nth swapped_max_nth)
qed

theorem enforce_leaves_missing_max_witness:
  "enforce example_transposed = Inr example_enforced \<and>
   getitem example_transposed ''tmmn'' =
     Inr (example_var [''time'', ''lat'', ''lon''] ''degC''
            [Num 10, Num 6.85, Num 10, Num (- 32767)]) \<and>
   getitem example_transposed ''tmmx'' =
     Inr (example_var [''time'', ''lat'', ''lon''] ''degC''
            [Num 5, Num 16.85, Num (- 32767), Num 26.85]) \<and>
   vals (example_var [''time'', ''lat'', ''lon''] ''degC''
           [Num 5, Num 16.85, Num (- 32767), Num 26.85]) ! 2 = Num (- 32767) \<and>
   getitem example_enforced ''tmmn'' =
     Inr (example_var [''time'', ''lat'', ''lon''] ''degC''
            [Num 5, Num 6.85, Num 10, Num (- 32767)]) \<and>
   getitem example_enforced ''tmmx'' =
     Inr (example_var [''time'', ''lat'', ''lon''] ''degC''
            [Num 10, Num 16.85, Num (- 32767), Num 26.85]) \<and>
   vals (example_var [''time'', ''lat'', ''lon''] ''degC''
           [Num 5, Num 6.85, Num 10, Num (- 32767)]) ! 2 =
   vals (example_var [''time'', ''lat'', ''lon''] ''degC''
           [Num 10, Num 6.85, Num 10, Num (- 32767)]) ! 2 \<and>
   vals (example_var [''time'', ''lat'', ''lon''] ''degC''
           [Num 10, Num 16.85, Num (- 32767), Num 26.85]) ! 2 =
   vals (example_var [''time'', ''lat'', ''lon''] ''degC''
           [Num 5, Num 16.85, Num (- 32767), Num 26.85]) ! 2"
proof -
  let ?n = "example_var [''time'', ''lat'', ''lon''] ''degC''
              [Num 10, Num 6.85, Num 10, Num (- 32767)]"
  let ?x = "example_var [''time'', ''lat'', ''lon''] ''degC''
              [Num 5, Num 16.85, Num (- 32767), Num 26.85]"
  let ?n' = "example_var [''time'', ''lat'', ''lon''] ''degC''
               [Num 5, Num 6.85, Num 10, Num (- 32767)]"
  let ?x' = "example_var [''time'', ''lat'', ''lon''] ''degC''
               [Num 10, Num 16.85, Num (- 32767), Num 26.85]"
  note g = example_temperatures(8,7)
  note g' = example_temperatures(10,9)
  have l: "2 < length (vals ?n)" "2 < length (vals ?x)"
    by (simp_all add: example_var_simps)
  have s: "vals ?x ! 2 = Num (- 32767)"
    by (simp add: example_var_simps)
  from enforce_leaves_missing_max[OF example_enforce g l s] obtain vn' vx' where
    r: "getitem example_enforced ''tmmn'' = Inr vn'" "getitem example_enforced ''tmmx'' = Inr vx'"
       "vals vn' ! 2 = vals ?n ! 2" "vals vx' ! 2 = vals ?x ! 2"
    by blast
  from r(1,2) g' have "vn' = ?n'" "vx' = ?x'" by simp_all
  with r(3,4) example_enforce g g' s show ?thesis by blast
qed

text \<open>
  Claim C7 (the two temperature series).  Both temperature files name their variable
  \<open>air_temperature\<close>.  The fetch loop renames it to \<open>tmmx\<close> and to \<open>tmmn\<close> before appending
  the dataset, so whenever the loop and the merge succeed the merged dataset holds, under the two
  names, the array of the maximum file and the array of the minimum file.
\<close>

theorem fetch_retags_temperature:
  assumes "fetch_loop (open_dataset w) varnames [] = Inr dlist"
    and "xr_merge dlist = Inr merged"
    and "open_dataset w (url ''tmmx'') = Inr dx" and "open_dataset w (url ''tmmn'') = Inr dn"
    and "getitem dx ''air_temperature'' = Inr vx" and "getitem dn ''air_temperature'' = Inr vn"
  shows "\<exists>mx mn. getitem merged ''tmmx'' = Inr mx \<and> getitem merged ''tmmn'' = Inr mn \<and>
           shape mx = shape vx \<and> vals mx = vals vx \<and>
           shape mn = shape vn \<and> vals mn = vals vn"
proof -
  from assms(1) obtain dx0 dx' dn0 dn' where
    f: "open_dataset w (url ''tmmx'') = Inr dx0"
       "rename_ds ''air_temperature'' ''tmmx'' dx0 = Inr dx'"
       "open_dataset w (url ''tmmn'') = Inr dn0"
       "rename_ds ''air_temperature'' ''tmmn'' dn0 = Inr dn'"
       "dx' \<in> set dlist" "dn' \<in> set dlist"
    by (rule fetch_loop_temperature)
  from f(1,3) assms(3,4) have e: "dx0 = dx" "dn0 = dn" by simp_all
  have x: "getitem dx' ''tmmx'' =
             Inr (vx\<lparr>dims := map (rename_name ''air_temperature'' ''tmmx'') (dims vx)\<rparr>)"
    by (rule rename_ds_data_var[OF f(2)[unfolded e] _ assms(5)]) simp
  have n: "getitem dn' ''tmmn'' =
             Inr (vn\<lparr>dims := map (rename_name ''air_temperature'' ''tmmn'') (dims vn)\<rparr>)"
    by (rule rename_ds_data_var[OF f(4)[unfolded e] _ assms(6)]) simp
  from xr_merge_Inr[OF assms(2) f(5) x] xr_merge_Inr[OF assms(2) f(6) n]
  show ?thesis by auto
qed

theorem fetch_retags_temperature_witness:
  "fetch_loop (open_dataset example_world) varnames [] = Inr example_dlist \<and>
   xr_merge example_dlist = Inr example_raw \<and>
   open_dataset example_world (url ''tmmx'') =
     Inr (example_series ''air_temperature'' ''K'' [278.15, - 32767, 290, 300]) \<and>
   open_dataset example_world (url ''tmmn'') =
     Inr (example_series ''air_temperature'' ''K'' [283.15, 283.15, 280, - 29800]) \<and>
   getitem example_raw ''tmmx'' =
     Inr (example_var [''day'', ''lon'', ''lat''] ''K''
            [Num 278.15, Num (- 32767), Num 290, Num 300]) \<and>
   getitem example_raw ''tmmn'' =
     Inr (example_var [''day'', ''lon'', ''lat''] ''K''
            [Num 283.15, Num 283.15, Num 280, Num (- 29800)]) \<and>
   vals (example_var [''day'', ''lon'', ''lat''] ''K''
           [Num 278.15, Num (- 32767), Num 290, Num 300]) =
     [Num 278.15, Num (- 32767), Num 290, Num 300] \<and>
   vals (example_var [''day'', ''lon'', ''lat''] ''K''
           [Num 283.15, Num 283.15, Num 280, Num (- 29800)]) =
     [Num 283.15, Num 283.15, Num 280, Num (- 29800)]"
proof -
  let ?vx = "example_var [''day'', ''lon'', ''lat''] ''K''
               [Num 278.15, Num (- 32767), Num 290, Num 300]"
  let ?vn = "example_var [''day'', ''lon'', ''lat''] ''K''
               [Num 283.15, Num 283.15, Num 280, Num (- 29800)]"
  have f: "fetch_loop (open_dataset example_world) varnames [] = Inr example_dlist"
    by (simp only: example_world_simps example_fetch)
  have o: "open_dataset example_world (url ''tmmx'') =
             Inr (example_series ''air_temperature'' ''K'' [278.15, - 32767, 290, 300])"
          "open_dataset example_world (url ''tmmn'') =
             Inr (example_series ''air_temperature'' ''K'' [283.15, 283.15, 280, - 29800])"
    by (simp_all only: example_world_simps example_open)
  note g = example_air_temperature
  note r = example_temperatures(1,2)
  from fetch_retags_temperature[OF f example_merge o g] obtain mx mn where
    m: "getitem example_raw ''tmmx'' = Inr mx" "getitem example_raw ''tmmn'' = Inr mn"
       "vals mx = vals ?vx" "vals mn = vals ?vn"
    by blast
  from m(1,2) r have "mx = ?vx" "mn = ?vn" by simp_all
  with m(3,4) have "vals ?vx = [Num 278.15, Num (- 32767), Num 290, Num 300]"
    "vals ?vn = [Num 283.15, Num 283.15, Num 280, Num (- 29800)]"
    by (simp_all add: example_var_simps)
  with f example_merge o r show ?thesis by blast
qed

text \<open>
  Claim C8 (time axis and dimension order).  The hypotheses name the datasets between the
  stages: \<open>merged\<close> after \<open>xr.merge\<close>, \<open>m1\<close> after the renaming, \<open>m3\<close> after the unit
  conversion, \<open>m4\<close> after the transposition and \<open>ds\<close> after the swap; \<open>x0\<close> and \<open>x3\<close> are the
  variable \<open>n\<close> in \<open>merged\<close> and in \<open>m3\<close>, and \<open>a\<close> is a position within the extents of
  \<open>x3\<close>.  Then \<open>ds\<close> is the result of the pipeline and the dataset that the loop body hands to
  the staging step in front of the regridding engine.  In \<open>ds\<close> no variable, coordinate or
  dimension is called \<open>day\<close>, and the coordinate \<open>time\<close> is the coordinate that \<open>merged\<close>
  called \<open>day\<close>; the renaming changes the dimension names of a variable and nothing else.
  Every data variable of \<open>ds\<close> has its dimensions among \<open>time\<close>, \<open>lat\<close>, \<open>lon\<close>, in that
  order, and a variable with all three has exactly \<open>(time, lat, lon)\<close>.  The transposition
  moves the cells with the axes: the transposed variable has the dimensions of \<open>x3\<close> in the
  canonical order, as many cells as its shape says, the same extent along every dimension, and
  at the position \<open>a\<close>, given by dimension name, the cell that \<open>x3\<close> has there.  The swap
  keeps dimensions and shapes, and leaves every variable other than \<open>tmmn\<close> and \<open>tmmx\<close>
  as it is.
\<close>

theorem time_renamed_dims_canonical:
  assumes fl: "fetch_loop (open_dataset w) varnames [] = Inr dlist"
    and mg: "xr_merge dlist = Inr merged"
    and rn: "rename_ds ''day'' ''time'' merged = Inr m1"
    and no: "normalize w m1 = Inr m3"
    and tr: "transpose_ds [''time'', ''lat'', ''lon''] m3 = Inr m4"
    and en: "enforce m4 = Inr ds"
    and g0: "getitem merged n = Inr x0"
    and g3: "getitem m3 n = Inr x3" and wf: "wf_variable x3"
    and a: "\<forall>d \<in> set (dims x3). a d < dim_size x3 d"
    and kw: "bindE (window cfg ds) (window_kwargs cfg) = Inr kwargs"
    and rp: "replace_var_pythonic_config w old new kwargs files = (None, files1)"
    and td: "cfg_get cfg ''ECFLOW'' ''TempDir'' = Inr temp_dir"
  shows "build_dataset w = Inr ds \<and>
         run_model w cfg loc old new grid model files =
           stage_and_regrid w ds grid (temporary_path temp_dir model)
             (path_join loc (model @ ''.nc'')) files1 \<and>
         ''day'' \<notin> set (ds_names ds) \<and> ''day'' \<notin> set (ds_dims ds) \<and>
         map_of (coords ds) ''time'' = map_of (coords merged) ''day'' \<and>
         (n \<noteq> ''day'' \<longrightarrow>
            getitem m1 n = Inr (x0\<lparr>dims := map (rename_name ''day'' ''time'') (dims x0)\<rparr>)) \<and>
         (\<forall>(n, x) \<in> set (data_vars ds).
            set (dims x) \<subseteq> {''time'', ''lat'', ''lon''} \<and>
            (set (dims x) = {''time'', ''lat'', ''lon''} \<longrightarrow> dims x = [''time'', ''lat'', ''lon'']) \<and>
            (distinct (dims x) \<longrightarrow>
               dims x = filter (\<lambda>d. d \<in> set (dims x)) [''time'', ''lat'', ''lon''])) \<and>
         (\<exists>x4 x. getitem m4 n = Inr x4 \<and> getitem ds n = Inr x \<and>
            dims x4 = filter (\<lambda>d. d \<in> set (dims x3)) [''time'', ''lat'', ''lon''] \<and>
            wf_variable x4 \<and>
            (\<forall>d \<in> set (dims x3). dim_size x4 d = dim_size x3 d) \<and>
            cell_at x4 a = cell_at x3 a \<and>
            dims x = dims x4 \<and> shape x = shape x4 \<and>
            (n \<noteq> ''tmmn'' \<and> n \<noteq> ''tmmx'' \<longrightarrow> x = x4))"
proof -
  have bd: "build_dataset w = Inr ds" by (rule build_dataset_stages[OF fl mg rn no tr en])
  have rm: "run_model w cfg loc old new grid model files =
           stage_and_regrid w ds grid (temporary_path temp_dir model)
             (path_join loc (model @ ''.nc'')) files1"
    by (rule run_model_stages[OF bd kw rp td])
  have ne: "''day'' \<noteq> ''time''" by simp
  have names: "ds_names ds = ds_names m1"
    by (simp only: same_dims_names[OF enforce_same_dims[OF en]] transpose_ds_names[OF tr]
          same_dims_names[OF normalize_same_dims[OF no]])
  have crd: "coords ds = coords m1"
    by (simp add: enforce_same_dims(2)[OF en] transpose_ds_Inr(3)[OF tr]
          normalize_same_dims(2)[OF no])
  have var: "set (dims x) \<subseteq> {''time'', ''lat'', ''lon''} \<and>
            (set (dims x) = {''time'', ''lat'', ''lon''} \<longrightarrow> dims x = [''time'', ''lat'', ''lon'']) \<and>
            (distinct (dims x) \<longrightarrow>
               dims x = filter (\<lambda>d. d \<in> set (dims x)) [''time'', ''lat'', ''lon''])"
    if "(n, x) \<in> set (data_vars ds)" for n x
  proof -
    from var_dims_mem[OF that enforce_same_dims(1)[OF en]] obtain x4 where
      x4: "(n, x4) \<in> set (data_vars m4)" and d: "dims x4 = dims x" by blast
    from canonical_dims[OF tr x4] show ?thesis unfolding d by blast
  qed
  have "set (ds_dims ds) \<subseteq> {''time'', ''lat'', ''lon''} \<union> set (map fst (coords ds))"
    using var by (auto simp: ds_dims_def)
  moreover have "''day'' \<notin> set (map fst (coords ds))"
    using rename_ds_old_name_gone(1)[OF rn ne] by (simp add: crd ds_names_def)
  ultimately have day_dim: "''day'' \<notin> set (ds_dims ds)" by auto
  have day_name: "''day'' \<notin> set (ds_names ds)"
    using rename_ds_old_name_gone(1)[OF rn ne] by (simp add: names)
  have time: "map_of (coords ds) ''time'' = map_of (coords merged) ''day''"
    by (simp add: crd rename_ds_coord[OF rn ne])
  have ren: "getitem m1 n = Inr (x0\<lparr>dims := map (rename_name ''day'' ''time'') (dims x0)\<rparr>)"
    if "n \<noteq> ''day''"
    by (rule rename_ds_other_var[OF rn ne that g0])
  define nd where "nd = filter (\<lambda>d. d \<in> set (dims x3)) [''time'', ''lat'', ''lon'']"
  define x4 where "x4 = transpose_var nd x3"
  note t = transpose_ds_getitem[OF tr g3]
  have g4: "getitem m4 n = Inr x4" unfolding x4_def nd_def by (rule t(1))
  have dn: "distinct nd" unfolding nd_def by simp
  have sn: "set nd = set (dims x3)" unfolding nd_def by (rule set_filter_order[OF t(2)])
  note k = transpose_var_keeps[OF wf dn sn, folded x4_def]
  from getitem_same_dims[OF g4 enforce_same_dims(1)[OF en]] obtain x where
    g: "getitem ds n = Inr x" and dx: "dims x = dims x4" "shape x = shape x4" by blast
  have oth: "x = x4" if "n \<noteq> ''tmmn'' \<and> n \<noteq> ''tmmx''"
    using enforce_other_var[OF en, of n] that g g4 by simp
  have tp: "\<exists>x4 x. getitem m4 n = Inr x4 \<and> getitem ds n = Inr x \<and>
            dims x4 = filter (\<lambda>d. d \<in> set (dims x3)) [''time'', ''lat'', ''lon''] \<and>
            wf_variable x4 \<and>
            (\<forall>d \<in> set (dims x3). dim_size x4 d = dim_size x3 d) \<and>
            cell_at x4 a = cell_at x3 a \<and>
            dims x = dims x4 \<and> shape x = shape x4 \<and>
            (n \<noteq> ''tmmn'' \<and> n \<noteq> ''tmmx'' \<longrightarrow> x = x4)"
    using g4 g k(1)[unfolded nd_def] k(2) k(3) k(4)[OF a] dx oth by blast
  from bd rm day_name day_dim time ren var tp show ?thesis by blast
qed

theorem time_renamed_dims_canonical_witness:
  "fetch_loop (open_dataset example_world) varnames [] = Inr example_dlist \<and>
   xr_merge example_dlist = Inr example_raw \<and>
   rename_ds ''day'' ''time'' example_raw = Inr example_K \<and>
   normalize example_world example_K = Inr example_degC \<and>
   transpose_ds [''time'', ''lat'', ''lon''] example_degC = Inr example_transposed \<and>
   enforce example_transposed = Inr example_enforced \<and>
   build_dataset example_world = Inr example_enforced \<and>
   run_model example_world example_config ''/data/forecast'' ''/cfg/old.cfg'' ''/cfg/new.cfg''
       ''/data/grid.nc'' ''CFSv2'' {} =
     stage_and_regrid example_world example_enforced ''/data/grid.nc''
       (temporary_path ''/scratch/tmp'' ''CFSv2'')
       (path_join ''/data/forecast'' (''CFSv2'' @ ''.nc'')) {''/cfg/new.cfg''} \<and>
   ''day'' \<notin> set (ds_names example_enforced) \<and>
   ''day'' \<notin> set (ds_dims example_enforced) \<and>
   map_of (coords example_raw) ''day'' = Some (TimeAxis [example_end_date]) \<and>
   map_of (coords example_enforced) ''time'' = Some (TimeAxis [example_end_date]) \<and>
   getitem example_raw ''tmmx'' =
     Inr (example_var [''day'', ''lon'', ''lat''] ''K''
            [Num 278.15, Num (- 32767), Num 290, Num 300]) \<and>
   getitem example_K ''tmmx'' =
     Inr (example_var [''time'', ''lon'', ''lat''] ''K''
            [Num 278.15, Num (- 32767), Num 290, Num 300]) \<and>
   getitem example_degC ''tmmx'' =
     Inr (example_var [''time'', ''lon'', ''lat''] ''degC''
            [Num 5, Num (- 32767), Num 16.85, Num 26.85]) \<and>
   getitem example_transposed ''tmmx'' =
     Inr (example_var [''time'', ''lat'', ''lon''] ''degC''
            [Num 5, Num 16.85, Num (- 32767), Num 26.85]) \<and>
   cell_at (example_var [''time'', ''lon'', ''lat''] ''degC''
              [Num 5, Num (- 32767), Num 16.85, Num 26.85])
           (\<lambda>d. if d = ''lat'' then 1 else 0) = Num (- 32767) \<and>
   cell_at (example_var [''time'', ''lat'', ''lon''] ''degC''
              [Num 5, Num 16.85, Num (- 32767), Num 26.85])
           (\<lambda>d. if d = ''lat'' then 1 else 0) = Num (- 32767) \<and>
   getitem example_enforced ''tmmx'' =
     Inr (example_var [''time'', ''lat'', ''lon''] ''degC''
            [Num 10, Num 16.85, Num (- 32767), Num 26.85]) \<and>
   dims (example_var [''time'', ''lat'', ''lon''] ''degC''
           [Num 10, Num 16.85, Num (- 32767), Num 26.85]) = [''time'', ''lat'', ''lon'']"
proof -
  let ?x0 = "example_var [''day'', ''lon'', ''lat''] ''K''
               [Num 278.15, Num (- 32767), Num 290, Num 300]"
  let ?x3 = "example_var [''time'', ''lon'', ''lat''] ''degC''
               [Num 5, Num (- 32767), Num 16.85, Num 26.85]"
  let ?x4 = "example_var [''time'', ''lat'', ''lon''] ''degC''
               [Num 5, Num 16.85, Num (- 32767), Num 26.85]"
  let ?x = "example_var [''time'', ''lat'', ''lon''] ''degC''
              [Num 10, Num 16.85, Num (- 32767), Num 26.85]"
  let ?a = "\<lambda>d. if d = ''lat'' then 1 else (0 :: nat)"
  have f: "fetch_loop (open_dataset example_world) varnames [] = Inr example_dlist"
    by (simp only: example_world_simps example_fetch)
  note g0 = example_temperatures(1)
  note g1 = example_temperatures(3)
  note g3 = example_temperatures(5)
  note g4 = example_temperatures(7)
  note g = example_temperatures(9)
  have wf: "wf_variable ?x3" by (rule example_wf) simp_all
  have a: "\<forall>d \<in> set (dims ?x3). ?a d < dim_size ?x3 d"
    by (simp add: example_var_simps dim_size_def)
  have c3: "cell_at ?x3 ?a = Num (- 32767)"
    by (simp add: cell_at_def example_var_simps)
  note t = time_renamed_dims_canonical[OF f example_merge example_rename example_normalize example_transpose
      example_enforce g0 g3 wf a example_kwargs example_replace_ok(1) example_cfg(7),
      of "''/data/forecast''" "''/data/grid.nc''" "''CFSv2''"]
  from t have bd: "build_dataset example_world = Inr example_enforced" by blast
  from t have rm: "run_model example_world example_config ''/data/forecast'' ''/cfg/old.cfg''
       ''/cfg/new.cfg'' ''/data/grid.nc'' ''CFSv2'' {} =
     stage_and_regrid example_world example_enforced ''/data/grid.nc''
       (temporary_path ''/scratch/tmp'' ''CFSv2'')
       (path_join ''/data/forecast'' (''CFSv2'' @ ''.nc'')) {''/cfg/new.cfg''}"
    by blast
  from t have day: "''day'' \<notin> set (ds_names example_enforced)"
    "''day'' \<notin> set (ds_dims example_enforced)"
    by blast+
  from t have "map_of (coords example_enforced) ''time'' = map_of (coords example_raw) ''day''"
    by blast
  then have time: "map_of (coords example_enforced) ''time'' = Some (TimeAxis [example_end_date])"
    by (simp only: example_time_axis)
  from t obtain x4 x where
    r: "getitem example_transposed ''tmmx'' = Inr x4" "getitem example_enforced ''tmmx'' = Inr x"
       "cell_at x4 ?a = cell_at ?x3 ?a" "dims x = dims x4"
       "dims x4 = filter (\<lambda>d. d \<in> set (dims ?x3)) [''time'', ''lat'', ''lon'']"
    by blast
  from r(1,2) g4 g have e: "x4 = ?x4" "x = ?x" by simp_all
  from r(3) c3 have c4: "cell_at ?x4 ?a = Num (- 32767)" unfolding e by simp
  from r(4,5) have d: "dims ?x = [''time'', ''lat'', ''lon'']"
    unfolding e by (simp add: example_var_simps)
  from f example_merge example_rename example_normalize example_transpose example_enforce
    bd rm day example_time_axis(2) time g0 g1 g3 g4 c3 c4 g d
  show ?thesis by blast
qed

text \<open>
  Claim C9 (idempotence of the swap).  Running the swap on its own result changes nothing.  The
  claim restricts the grids to those whose values other than \<open>-32767\<close> exceed \<open>-30000\<close>; the
  theorem carries that hypothesis, which the proof does not need.
\<close>

theorem enforce_twice:
  assumes "enforce ds = Inr ds'"
    and "getitem ds ''tmmn'' = Inr vn" and "getitem ds ''tmmx'' = Inr vx"
    and "\<forall>x \<in> set (vals vn) \<union> set (vals vx). x \<noteq> Num (- 32767) \<longrightarrow> cell_less (Num (- 30000)) x"
  shows "enforce ds' = Inr ds'"
proof -
  from assms(1) obtain vn0 vx0 where
    s: "shape vn0 = shape vx0"
    and n: "getitem ds' ''tmmn'' =
       Inr (vn0\<lparr>vals := mask_set (vals vn0) (swap_mask (vals vn0) (vals vx0))
                                 (mask_get (vals vx0) (swap_mask (vals vn0) (vals vx0)))\<rparr>)"
    and x: "getitem ds' ''tmmx'' =
       Inr (vx0\<lparr>vals := mask_set (vals vx0) (swap_mask (vals vn0) (vals vx0))
                                 (mask_get (vals vn0) (swap_mask (vals vn0) (vals vx0)))\<rparr>)"
    by (rule enforce_Inr)
  define vn' where "vn' = vn0\<lparr>vals := mask_set (vals vn0) (swap_mask (vals vn0) (vals vx0))
                                 (mask_get (vals vx0) (swap_mask (vals vn0) (vals vx0)))\<rparr>"
  define vx' where "vx' = vx0\<lparr>vals := mask_set (vals vx0) (swap_mask (vals vn0) (vals vx0))
                                 (mask_get (vals vn0) (swap_mask (vals vn0) (vals vx0)))\<rparr>"
  have n': "getitem ds' ''tmmn'' = Inr vn'" and x': "getitem ds' ''tmmx'' = Inr vx'"
    using n x by (simp_all add: vn'_def vx'_def)
  have f: "\<forall>p \<in> set (swap_mask (vals vn') (vals vx')). \<not> p"
    unfolding vn'_def vx'_def using swap_mask_after_swap[of "vals vn0" "vals vx0"] by simp
  have keep: "vn'\<lparr>vals := mask_set (vals vn') (swap_mask (vals vn') (vals vx'))
                                 (mask_get (vals vx') (swap_mask (vals vn') (vals vx')))\<rparr> = vn'"
    "vx'\<lparr>vals := mask_set (vals vx') (swap_mask (vals vn') (vals vx'))
                                 (mask_get (vals vn') (swap_mask (vals vn') (vals vx')))\<rparr> = vx'"
    by (simp_all add: mask_set_all_False[OF f])
  have sh: "shape vn' = shape vx'" by (simp add: vn'_def vx'_def s)
  show ?thesis
    unfolding enforce_def by (simp add: n' x' bindE_def sh Let_def keep setitem_same)
qed

theorem enforce_twice_witness:
  "enforce example_transposed = Inr example_enforced \<and>
   enforce example_enforced = Inr example_enforced"
proof -
  let ?n = "example_var [''time'', ''lat'', ''lon''] ''degC''
              [Num 10, Num 6.85, Num 10, Num (- 32767)]"
  let ?x = "example_var [''time'', ''lat'', ''lon''] ''degC''
              [Num 5, Num 16.85, Num (- 32767), Num 26.85]"
  note g = example_temperatures(8,7)
  have h: "\<forall>x \<in> set (vals ?n) \<union> set (vals ?x).
             x \<noteq> Num (- 32767) \<longrightarrow> cell_less (Num (- 30000)) x"
    by (simp add: example_var_simps)
  from enforce_twice[OF example_enforce g h] example_enforce show ?thesis by blast
qed




end
